theory Spec2Isabelle
  imports Main "HOL-Library.State_Monad"
begin

section \<open>JavaScript strings and numbers\<close>

text \<open>
  A JavaScript string is modelled as a \<^typ>\<open>string\<close>: a list of characters, each standing
  for the UTF-16 code unit of the same number (so only code units below 256 are
  represented). The built-in string operations the library calls are written out for
  that range.
\<close>

definition bs :: char where
  "bs = CHR 0x5C"

definition dq :: char where
  "dq = CHR 0x22"

text \<open>The regular expression class \<open>\s\<close> (also what \<open>trim\<close> and \<open>parseInt\<close> strip).\<close>

definition is_space :: "char \<Rightarrow> bool" where
  "is_space c = (c = CHR 0x09 \<or> c = CHR 0x0A \<or> c = CHR 0x0B \<or> c = CHR 0x0C
     \<or> c = CHR 0x0D \<or> c = CHR 0x20 \<or> c = CHR 0xA0)"

text \<open>The characters the regular expression \<open>.\<close> does not match.\<close>

definition is_line_terminator :: "char \<Rightarrow> bool" where
  "is_line_terminator c = (c = CHR 0x0A \<or> c = CHR 0x0D)"

text \<open>The regular expression class \<open>\d\<close>.\<close>

definition code_unit :: "char \<Rightarrow> nat" where
  "code_unit c = of_char c"

definition is_digit :: "char \<Rightarrow> bool" where
  "is_digit c = (code_unit (CHR ''0'') \<le> code_unit c \<and> code_unit c \<le> code_unit (CHR ''9''))"

definition trim :: "string \<Rightarrow> string" where
  "trim s = rev (dropWhile is_space (rev (dropWhile is_space s)))"

definition startsWith :: "string \<Rightarrow> string \<Rightarrow> bool" where
  "startsWith s p = (take (length p) s = p)"

definition endsWith :: "string \<Rightarrow> string \<Rightarrow> bool" where
  "endsWith s p = (length p \<le> length s \<and> drop (length s - length p) s = p)"

fun str_includes :: "string \<Rightarrow> string \<Rightarrow> bool" where
  "str_includes [] p = (p = [])"
| "str_includes (c # cs) p = (startsWith (c # cs) p \<or> str_includes cs p)"

text \<open>
  \<open>toLowerCase\<close> on code units below 256: the letters A-Z, and the accented capitals
  of Latin-1 (0xC0-0xDE but the multiplication sign 0xD7), move up by 0x20.
\<close>

definition lower_char :: "char \<Rightarrow> char" where
  "lower_char c =
     (if (code_unit (CHR ''A'') \<le> code_unit c \<and> code_unit c \<le> code_unit (CHR ''Z''))
         \<or> (0xC0 \<le> code_unit c \<and> code_unit c \<le> 0xDE \<and> code_unit c \<noteq> 0xD7)
      then char_of (code_unit c + 32) else c)"

definition toLowerCase :: "string \<Rightarrow> string" where
  "toLowerCase s = map lower_char s"

text \<open>\<open>s.replace(/\\\\/g, '\\')\<close>: every pair of backslashes becomes one, left to right.\<close>

fun replace_double_backslash :: "string \<Rightarrow> string" where
  "replace_double_backslash (a # b # cs) =
     (if a = bs \<and> b = bs then bs # replace_double_backslash cs
      else a # replace_double_backslash (b # cs))"
| "replace_double_backslash cs = cs"

text \<open>\<open>s.replace(/\\/g, '\\')\<close>: every backslash is replaced by a backslash.\<close>

definition replace_backslash :: "string \<Rightarrow> string" where
  "replace_backslash s = concat (map (\<lambda>c. if c = bs then [bs] else [c]) s)"

text \<open>
  A JavaScript number, as far as the library produces one: \<open>NaN\<close>, or an integer.
  \<open>parseInt(s, 10)\<close> skips leading white space, reads an optional sign and the longest
  run of decimal digits, and gives \<open>NaN\<close> when there is no digit. The rounding of an
  integer beyond 2^53 to a double is not modelled.
\<close>

datatype number = NaN | Num int

definition digit_value :: "char \<Rightarrow> nat" where
  "digit_value c = code_unit c - code_unit (CHR ''0'')"

definition digits_value :: "string \<Rightarrow> int" where
  "digits_value ds = foldl (\<lambda>n c. 10 * n + int (digit_value c)) 0 ds"

definition parseInt10 :: "string \<Rightarrow> number" where
  "parseInt10 s =
     (let t = dropWhile is_space s;
          negative = (t \<noteq> [] \<and> hd t = CHR ''-'');
          u = (if t \<noteq> [] \<and> (hd t = CHR ''-'' \<or> hd t = CHR ''+'') then tl t else t);
          ds = takeWhile is_digit u
      in if ds = [] then NaN
         else Num ((if negative then - 1 else 1) * digits_value ds))"

definition times_1000 :: "number \<Rightarrow> number" where
  "times_1000 x = (case x of NaN \<Rightarrow> NaN | Num n \<Rightarrow> Num (n * 1000))"

text \<open>
  \<open>new Date(ms)\<close>: a time value in milliseconds, or the Invalid Date when \<open>ms\<close> is
  \<open>NaN\<close> or beyond 8.64e15 in magnitude.
\<close>

datatype js_date = Invalid_Date | Date_ms int

definition new_Date :: "number \<Rightarrow> js_date" where
  "new_Date x =
     (case x of NaN \<Rightarrow> Invalid_Date
      | Num n \<Rightarrow> if \<bar>n\<bar> \<le> 8640000000000000 then Date_ms n else Invalid_Date)"

subsection \<open>The regular expressions of the library\<close>

text \<open>
  \<open>/(?:SteamPath|InstallPath)\s+REG_SZ\s+(.+)/\<close>, read on the output of \<open>reg query\<close>.
  \<open>dot_plus\<close> is \<open>(.+)\<close> at the start of a string; \<open>spaces_dot_plus\<close> is \<open>\s*(.+)\<close>
  with the greedy white space run tried first and given back one character at a time;
  \<open>reg_match_at\<close> is the whole expression at the start of a string, and \<open>reg_match\<close>
  the leftmost match. Each returns the text of group 1.
\<close>

definition dot_plus :: "string \<Rightarrow> string option" where
  "dot_plus s =
     (let g = takeWhile (\<lambda>c. \<not> is_line_terminator c) s in if g = [] then None else Some g)"

fun spaces_dot_plus :: "string \<Rightarrow> string option" where
  "spaces_dot_plus [] = None"
| "spaces_dot_plus (c # cs) =
     (if is_space c
      then (case spaces_dot_plus cs of Some g \<Rightarrow> Some g | None \<Rightarrow> dot_plus (c # cs))
      else dot_plus (c # cs))"

definition reg_match_at :: "string \<Rightarrow> string option" where
  "reg_match_at s =
     (let after_name =
            (if startsWith s ''SteamPath'' then Some (drop 9 s)
             else if startsWith s ''InstallPath'' then Some (drop 11 s)
             else None)
      in case after_name of
           None \<Rightarrow> None
         | Some r \<Rightarrow>
             (let r1 = dropWhile is_space r in
              if r \<noteq> [] \<and> is_space (hd r) \<and> startsWith r1 ''REG_SZ''
              then (case drop 6 r1 of
                      [] \<Rightarrow> None
                    | c # cs \<Rightarrow> if is_space c then spaces_dot_plus cs else None)
              else None))"

fun reg_match :: "string \<Rightarrow> string option" where
  "reg_match [] = None"
| "reg_match (c # cs) =
     (case reg_match_at (c # cs) of Some g \<Rightarrow> Some g | None \<Rightarrow> reg_match cs)"

text \<open>
  \<open>/"key"\s*"([^"]+)"/\<close> for a key without a quote. \<open>field_match_at\<close> matches at the
  start of a string and returns group 1 with the text left after the match;
  \<open>field_match\<close> is the leftmost match (\<open>s.match(re)\<close>, group 1).
\<close>

definition field_match_at :: "string \<Rightarrow> string \<Rightarrow> (string \<times> string) option" where
  "field_match_at key s =
     (let k = dq # key @ [dq] in
      if startsWith s k
      then (case dropWhile is_space (drop (length k) s) of
              [] \<Rightarrow> None
            | c # r \<Rightarrow>
                if c = dq
                then (let v = takeWhile (\<lambda>x. x \<noteq> dq) r; r' = dropWhile (\<lambda>x. x \<noteq> dq) r
                      in if v \<noteq> [] \<and> r' \<noteq> [] then Some (v, tl r') else None)
                else None)
      else None)"

fun field_match :: "string \<Rightarrow> string \<Rightarrow> string option" where
  "field_match key [] = None"
| "field_match key (c # cs) =
     (case field_match_at key (c # cs) of
        Some (v, r) \<Rightarrow> Some v
      | None \<Rightarrow> field_match key cs)"

text \<open>
  The same expression with the \<open>g\<close> flag: the texts of all matches, left to right, each
  search starting where the previous match ended. \<open>skip\<close> counts the characters of
  the current match still to pass over.
\<close>

fun field_match_all_from :: "string \<Rightarrow> nat \<Rightarrow> string \<Rightarrow> string list" where
  "field_match_all_from key skip [] = []"
| "field_match_all_from key (Suc skip) (c # cs) = field_match_all_from key skip cs"
| "field_match_all_from key 0 (c # cs) =
     (case field_match_at key (c # cs) of
        Some (v, r) \<Rightarrow>
          (let n = length (c # cs) - length r
           in take n (c # cs) # field_match_all_from key (n - 1) cs)
      | None \<Rightarrow> field_match_all_from key 0 cs)"

definition field_match_all :: "string \<Rightarrow> string \<Rightarrow> string list" where
  "field_match_all key s = field_match_all_from key 0 s"

text \<open>\<open>/appmanifest_(\d+)\.acf/\<close> on a file name: group 1 of the leftmost match.\<close>

definition manifest_match_at :: "string \<Rightarrow> string option" where
  "manifest_match_at s =
     (if startsWith s ''appmanifest_''
      then (let r = drop 12 s; ds = takeWhile is_digit r; r' = dropWhile is_digit r
            in if ds \<noteq> [] \<and> startsWith r' ''.acf'' then Some ds else None)
      else None)"

fun manifest_match :: "string \<Rightarrow> string option" where
  "manifest_match [] = None"
| "manifest_match (c # cs) =
     (case manifest_match_at (c # cs) of Some ds \<Rightarrow> Some ds | None \<Rightarrow> manifest_match cs)"

section \<open>The host: operating system, file system, processes\<close>

text \<open>
  Everything the library reads from its host, fixed for the length of one call:
  \<open>os.platform()\<close>, \<open>os.homedir()\<close>, \<open>process.env\<close>, the output of a shell command
  (\<open>None\<close> when \<open>execSync\<close> throws: a non-zero exit or the timeout), which paths exist,
  the text of a file and the entries of a directory (\<open>None\<close> when the read throws), and
  the functions of Node's \<open>path\<close> module, which depend on the platform and on the
  working directory.
\<close>

record world =
  platform :: string
  homedir :: string
  env :: "string \<Rightarrow> string option"
  exec_output :: "string \<Rightarrow> string option"
  file_exists :: "string \<Rightarrow> bool"
  file_content :: "string \<Rightarrow> string option"
  dir_entries :: "string \<Rightarrow> string list option"
  path_normalize :: "string \<Rightarrow> string"
  path_resolve :: "string list \<Rightarrow> string"
  path_join :: "string list \<Rightarrow> string"

text \<open>
  Each call of the library to the file system or to a shell is an event; a computation
  threads the list of the events so far and appends its own.
\<close>

datatype event =
    ExecSync string
  | ExistsSync string
  | ReadFileSync string
  | ReaddirSync string

type_synonym 'a io = "(event list, 'a) state"

abbreviation return :: "'a \<Rightarrow> 'a io" where
  "return \<equiv> State_Monad.return"

definition execSync :: "world \<Rightarrow> string \<Rightarrow> string option io" where
  "execSync w command = State (\<lambda>t. (exec_output w command, t @ [ExecSync command]))"

definition existsSync :: "world \<Rightarrow> string \<Rightarrow> bool io" where
  "existsSync w p = State (\<lambda>t. (file_exists w p, t @ [ExistsSync p]))"

definition readFileSync :: "world \<Rightarrow> string \<Rightarrow> string option io" where
  "readFileSync w p = State (\<lambda>t. (file_content w p, t @ [ReadFileSync p]))"

definition readdirSync :: "world \<Rightarrow> string \<Rightarrow> string list option io" where
  "readdirSync w p = State (\<lambda>t. (dir_entries w p, t @ [ReaddirSync p]))"

text \<open>What a computation returns, and the events it performs, from an empty history.\<close>

definition outcome :: "'a io \<Rightarrow> 'a" where
  "outcome m = fst (run_state m [])"

definition effects :: "'a io \<Rightarrow> event list" where
  "effects m = snd (run_state m [])"

text \<open>JavaScript's \<open>a && b\<close> on two effectful tests: \<open>b\<close> runs only when \<open>a\<close> is true.\<close>

definition and_then :: "bool io \<Rightarrow> bool io \<Rightarrow> bool io" where
  "and_then a b = do { x \<leftarrow> a; if x then b else return False }"

text \<open>\<open>process.env.NAME || ''\<close>.\<close>

definition env_or_empty :: "world \<Rightarrow> string \<Rightarrow> string" where
  "env_or_empty w name = (case env w name of None \<Rightarrow> [] | Some v \<Rightarrow> v)"

section \<open>Errors (errors.ts; the same classes in index.ts, lines 48-66)\<close>

text \<open>
  The two error classes of the library, and \<open>JsError\<close> for any other thrown \<open>Error\<close>.
  \<open>SteamNotFoundError\<close> holds its message and the optional \<open>platform\<close> field;
  \<open>SteamAppNotFoundError\<close> holds its message only (the class stores no field for the
  app id: the default message spells it out).
\<close>

datatype error =
    SteamNotFoundError string "string option"
  | SteamAppNotFoundError string
  | JsError string

fun message :: "error \<Rightarrow> string" where
  "message (SteamNotFoundError m p) = m"
| "message (SteamAppNotFoundError m) = m"
| "message (JsError m) = m"

text \<open>\<open>new SteamAppNotFoundError(appId, message?)\<close>: \<open>message || `Steam app with ID ... not found`\<close>.\<close>

definition new_SteamAppNotFoundError :: "string \<Rightarrow> string option \<Rightarrow> error" where
  "new_SteamAppNotFoundError appId msg =
     SteamAppNotFoundError
       (case msg of
          Some m \<Rightarrow> if m \<noteq> [] then m else ''Steam app with ID '' @ appId @ '' not found''
        | None \<Rightarrow> ''Steam app with ID '' @ appId @ '' not found'')"

section \<open>Path resolver (steam-path.ts, lines 10-115; index.ts, lines 230-360)\<close>

text \<open>
  The sources hold the library twice. Once as a single file, \<open>src/index.ts\<close>: here
  \<open>Monolith\<close>. Once split into modules, here \<open>Modular\<close>: the path resolver in
  \<open>steam-path.ts\<close>, followed in that file by the manifest parser and the inventory
  aggregator (the module \<open>steam-apps\<close>, lines 116-224); the library folder discoverer in
  \<open>steam-libraries.ts\<close>, followed by the process detector (the module \<open>steam-process\<close>,
  lines 56-132); \<open>steam-version.ts\<close>, \<open>errors.ts\<close>, and the index that imports them
  (\<open>unnamed/part_000\<close>). A function whose text differs between the two takes the
  revision as its first argument; a function with one text in both takes none.
\<close>

datatype revision = Monolith | Modular

text \<open>
  Windows. The single file resolves a path before normalizing it and collapses doubled
  backslashes of the registry value; the module normalizes only, and its \<open>replace\<close>
  maps a backslash to itself.
\<close>

definition canonical :: "revision \<Rightarrow> world \<Rightarrow> string \<Rightarrow> string" where
  "canonical v w p =
     (case v of
        Monolith \<Rightarrow> path_normalize w (path_resolve w [p])
      | Modular \<Rightarrow> path_normalize w p)"

definition unescape :: "revision \<Rightarrow> string \<Rightarrow> string" where
  "unescape v s =
     (case v of Monolith \<Rightarrow> replace_double_backslash s | Modular \<Rightarrow> replace_backslash s)"

definition registry_query :: string where
  \<open>registry_query =
     ''reg query "HKCU'' @ [bs] @ ''Software'' @ [bs] @ ''Valve'' @ [bs] @ ''Steam" /v SteamPath 2>nul''
     @ '' || ''
     @ ''reg query "HKLM'' @ [bs] @ ''Software'' @ [bs] @ ''Valve'' @ [bs] @ ''Steam" /v InstallPath 2>nul''\<close>

definition commonPaths :: "world \<Rightarrow> string list" where
  "commonPaths w =
     [ ''C:'' @ [bs] @ ''Program Files (x86)'' @ [bs] @ ''Steam'',
       ''C:'' @ [bs] @ ''Program Files'' @ [bs] @ ''Steam'',
       path_resolve w [env_or_empty w ''LOCALAPPDATA'', ''Steam''],
       path_resolve w [env_or_empty w ''APPDATA'', ''Steam''] ]"

text \<open>The loop over \<open>commonPaths\<close>: \<open>Some\<close> path when the loop returns one.\<close>

fun probe_commonPaths :: "revision \<Rightarrow> world \<Rightarrow> string list \<Rightarrow> string option io" where
  "probe_commonPaths v w [] = return None"
| "probe_commonPaths v w (p # ps) = do {
     let path = canonical v w p;
     ok \<leftarrow> and_then (existsSync w path) (existsSync w (path_resolve w [path, ''steam.exe'']));
     if ok then return (Some path) else probe_commonPaths v w ps
   }"

text \<open>The \<open>try\<close> block of \<open>findSteamPathWindows\<close>: \<open>Some\<close> path when it returns one.\<close>

definition registry_lookup :: "revision \<Rightarrow> world \<Rightarrow> string option io" where
  "registry_lookup v w = do {
     regOutput \<leftarrow> execSync w registry_query;
     case regOutput of
       None \<Rightarrow> return None
     | Some out \<Rightarrow>
         (case reg_match out of
            None \<Rightarrow> return None
          | Some g \<Rightarrow>
              if g \<noteq> [] then do {
                let steamPath = canonical v w (unescape v (trim g));
                ok \<leftarrow> and_then (existsSync w steamPath)
                       (existsSync w (path_resolve w [steamPath, ''steam.exe'']));
                return (if ok then Some steamPath else None)
              } else return None)
   }"

definition findSteamPathWindows :: "revision \<Rightarrow> world \<Rightarrow> (error + string) io" where
  "findSteamPathWindows v w = do {
     fromRegistry \<leftarrow> registry_lookup v w;
     case fromRegistry of
       Some steamPath \<Rightarrow> return (Inr steamPath)
     | None \<Rightarrow> do {
         found \<leftarrow> probe_commonPaths v w (commonPaths w);
         case found of
           Some path \<Rightarrow> return (Inr path)
         | None \<Rightarrow>
             return (Inl (SteamNotFoundError ''Could not locate Steam installation on Windows'' None))
       }
   }"

text \<open>macOS. The single file probes four paths; the module one.\<close>

fun probe_macos :: "world \<Rightarrow> string list \<Rightarrow> string option io" where
  "probe_macos w [] = return None"
| "probe_macos w (path # ps) = do {
     present \<leftarrow> existsSync w path;
     if present then
       (if str_includes path ''Steam.app'' then do {
          let steamExecutable = path_join w [path, ''Steam''];
          executable \<leftarrow> existsSync w steamExecutable;
          if executable then return (Some path) else probe_macos w ps
        } else do {
          again \<leftarrow> existsSync w path;
          if again then return (Some path) else probe_macos w ps
        })
     else probe_macos w ps
   }"

fun findSteamPathMacOS :: "revision \<Rightarrow> world \<Rightarrow> (error + string) io" where
  "findSteamPathMacOS Monolith w = do {
     found \<leftarrow> probe_macos w
       [ ''/Applications/Steam.app/Contents/MacOS'',
         path_resolve w [homedir w, ''Applications/Steam.app/Contents/MacOS''],
         ''/usr/local/bin/steam'',
         ''/opt/homebrew/bin/steam'' ];
     case found of
       Some path \<Rightarrow> return (Inr path)
     | None \<Rightarrow> return (Inl (SteamNotFoundError ''Could not locate Steam installation on macOS'' None))
   }"
| "findSteamPathMacOS Modular w = do {
     let steamPath = path_resolve w [homedir w, ''Library/Application Support/Steam''];
     present \<leftarrow> existsSync w steamPath;
     if present then return (Inr steamPath)
     else return (Inl (SteamNotFoundError ''Could not locate Steam installation on macOS'' None))
   }"

text \<open>
  Linux. The single file probes seven paths and then asks \<open>which steam\<close>; the module
  probes ten paths, skipping one already in its \<open>seen\<close> set, and asks no command. The
  module adds a path to \<open>seen\<close> only in the branch that returns it, so the set is empty
  at every test.
\<close>

fun probe_first_existing :: "world \<Rightarrow> string list \<Rightarrow> string option io" where
  "probe_first_existing w [] = return None"
| "probe_first_existing w (path # ps) = do {
     present \<leftarrow> existsSync w path;
     if present then return (Some path) else probe_first_existing w ps
   }"

definition which_steam :: "world \<Rightarrow> string option io" where
  "which_steam w = do {
     whichOutput \<leftarrow> execSync w ''which steam'';
     case whichOutput of
       None \<Rightarrow> return None
     | Some out \<Rightarrow> do {
         let steamPath = trim out;
         ok \<leftarrow> and_then (return (steamPath \<noteq> [])) (existsSync w steamPath);
         return (if ok then Some steamPath else None)
       }
   }"

fun probe_unseen :: "world \<Rightarrow> string set \<Rightarrow> string list \<Rightarrow> string option io" where
  "probe_unseen w seen [] = return None"
| "probe_unseen w seen (path # ps) = do {
     ok \<leftarrow> and_then (return (path \<notin> seen)) (existsSync w path);
     if ok then return (Some path) else probe_unseen w seen ps
   }"

definition snapDir :: "world \<Rightarrow> string" where
  "snapDir w =
     (case env w ''SNAP_USER_DATA'' of
        Some d \<Rightarrow> if d \<noteq> [] then path_resolve w [d] else path_resolve w [homedir w, ''snap'']
      | None \<Rightarrow> path_resolve w [homedir w, ''snap''])"

definition candidatePaths :: "world \<Rightarrow> string list" where
  "candidatePaths w =
     [ path_resolve w [homedir w, ''.var/app/com.valvesoftware.Steam/.local/share/Steam''],
       path_resolve w [homedir w, ''.var/app/com.valvesoftware.Steam/.steam/steam''],
       path_resolve w [homedir w, ''.var/app/com.valvesoftware.Steam/.steam/root''],
       path_resolve w [homedir w, ''.local/share/Steam''],
       path_resolve w [homedir w, ''.steam/steam''],
       path_resolve w [homedir w, ''.steam/root''],
       path_resolve w [homedir w, ''.steam/debian-installation''],
       path_resolve w [snapDir w, ''steam/common/.local/share/Steam''],
       path_resolve w [snapDir w, ''steam/common/.steam/steam''],
       path_resolve w [snapDir w, ''steam/common/.steam/root''] ]"

definition linux_commonPaths :: "world \<Rightarrow> string list" where
  "linux_commonPaths w =
     [ ''/usr/bin/steam'',
       ''/usr/local/bin/steam'',
       ''/opt/steam'',
       path_resolve w [homedir w, ''.steam/steam''],
       path_resolve w [homedir w, ''.local/share/Steam''],
       ''/usr/games/steam'',
       ''/snap/steam/current'' ]"

fun findSteamPathLinux :: "revision \<Rightarrow> world \<Rightarrow> (error + string) io" where
  "findSteamPathLinux Monolith w = do {
     found \<leftarrow> probe_first_existing w (linux_commonPaths w);
     case found of
       Some path \<Rightarrow> return (Inr path)
     | None \<Rightarrow> do {
         fromWhich \<leftarrow> which_steam w;
         case fromWhich of
           Some steamPath \<Rightarrow> return (Inr steamPath)
         | None \<Rightarrow>
             return (Inl (SteamNotFoundError ''Could not locate Steam installation on Linux'' None))
       }
   }"
| "findSteamPathLinux Modular w = do {
     found \<leftarrow> probe_unseen w {} (candidatePaths w);
     case found of
       Some path \<Rightarrow> return (Inr path)
     | None \<Rightarrow> return (Inl (SteamNotFoundError ''Could not locate Steam installation on Linux'' None))
   }"

definition findSteamPathSync :: "revision \<Rightarrow> world \<Rightarrow> (error + string) io" where
  "findSteamPathSync v w =
     (if platform w = ''win32'' then findSteamPathWindows v w
      else if platform w = ''darwin'' then findSteamPathMacOS v w
      else if platform w = ''linux'' then findSteamPathLinux v w
      else return (Inl (SteamNotFoundError (''Unsupported platform: '' @ platform w)
                          (Some (platform w)))))"

text \<open>
  \<open>findSteamPath\<close>: a promise that resolves with the path \<open>findSteamPathSync\<close> returns
  and rejects with the error it throws. A promise is modelled by what it settles to:
  \<open>Inr\<close> the value it resolves with, \<open>Inl\<close> the error it rejects with.
\<close>

definition findSteamPath :: "revision \<Rightarrow> world \<Rightarrow> (error + string) io" where
  "findSteamPath v w = do {
     r \<leftarrow> findSteamPathSync v w;
     case r of Inr path \<Rightarrow> return (Inr path) | Inl e \<Rightarrow> return (Inl e)
   }"

section \<open>Library folder discoverer (steam-libraries.ts, lines 7-55; the same text in index.ts, lines 433-485)\<close>

text \<open>
  The loop over \<open>pathMatches\<close>, the texts of the \<open>"path" "..."\<close> matches: each is
  matched again for its group, and the folder is pushed when it exists and is not yet
  in \<open>libraryFolders\<close> (\<open>Array.prototype.includes\<close>: equality of strings).
\<close>

fun collect_library_folders :: "world \<Rightarrow> string list \<Rightarrow> string list \<Rightarrow> string list io" where
  "collect_library_folders w [] libraryFolders = return libraryFolders"
| "collect_library_folders w (m # ms) libraryFolders =
     (case field_match ''path'' m of
        None \<Rightarrow> collect_library_folders w ms libraryFolders
      | Some g \<Rightarrow>
          if g \<noteq> [] then do {
            let libraryPath =
              path_normalize w (path_join w [replace_double_backslash g, ''steamapps'']);
            ok \<leftarrow> and_then (existsSync w libraryPath) (return (libraryPath \<notin> set libraryFolders));
            collect_library_folders w ms
              (if ok then libraryFolders @ [libraryPath] else libraryFolders)
          } else collect_library_folders w ms libraryFolders)"

text \<open>
  \<open>getLibraryFoldersSync\<close>. When reading the folders file throws, the inner \<open>catch\<close>
  keeps what was collected so far, the main folder. Nothing else in the body throws on
  strings, so the outer \<open>catch\<close> (return the empty list) has no branch here.
\<close>

definition getLibraryFoldersSync :: "world \<Rightarrow> string \<Rightarrow> string list io" where
  "getLibraryFoldersSync w steamPath = do {
     let mainAppsFolder = path_join w [steamPath, ''steamapps''];
     mainPresent \<leftarrow> existsSync w mainAppsFolder;
     let libraryFolders = (if mainPresent then [path_normalize w mainAppsFolder] else []);
     let libraryFoldersVdf = path_join w [steamPath, ''steamapps'', ''libraryfolders.vdf''];
     vdfPresent \<leftarrow> existsSync w libraryFoldersVdf;
     if vdfPresent then do {
       content \<leftarrow> readFileSync w libraryFoldersVdf;
       case content of
         None \<Rightarrow> return libraryFolders
       | Some text \<Rightarrow> collect_library_folders w (field_match_all ''path'' text) libraryFolders
     } else return libraryFolders
   }"

text \<open>\<open>getLibraryFolders\<close>: a promise that resolves with the folders.\<close>

definition getLibraryFolders :: "world \<Rightarrow> string \<Rightarrow> (error + string list) io" where
  "getLibraryFolders w steamPath = do {
     folders \<leftarrow> getLibraryFoldersSync w steamPath;
     return (Inr folders)
   }"

section \<open>Manifest parser and inventory aggregator (steam-path.ts, lines 125-224; index.ts, lines 570-668)\<close>

record SteamApp =
  appId :: string
  name :: "string option"
  installDir :: "string option"
  sizeOnDisk :: "number option"
  isInstalled :: bool
  lastUpdated :: "js_date option"

text \<open>\<open>m?.[1]\<close> used as a condition, or before \<open>|| undefined\<close>: the group when it is not empty.\<close>

definition truthy_group :: "string option \<Rightarrow> string option" where
  "truthy_group m = (case m of Some g \<Rightarrow> if g \<noteq> [] then Some g else None | None \<Rightarrow> None)"

text \<open>What \<open>findSteamAppInLibrariesSync\<close> builds from the text of a manifest it has read.\<close>

definition parse_manifest :: "world \<Rightarrow> string \<Rightarrow> string \<Rightarrow> string \<Rightarrow> SteamApp io" where
  "parse_manifest w app_id libraryFolder manifestContent = do {
     let nameMatch = field_match ''name'' manifestContent;
     let installDirMatch = field_match ''installdir'' manifestContent;
     let sizeMatch = field_match ''SizeOnDisk'' manifestContent;
     let lastUpdatedMatch = field_match ''LastUpdated'' manifestContent;
     let install_dir =
       (case truthy_group installDirMatch of
          Some g \<Rightarrow> Some (path_join w [libraryFolder, ''common'', g])
        | None \<Rightarrow> None);
     is_installed \<leftarrow>
       (case install_dir of
          Some d \<Rightarrow> if d \<noteq> [] then existsSync w d else return False
        | None \<Rightarrow> return False);
     return
       \<lparr> appId = app_id,
         name = truthy_group nameMatch,
         installDir = (if is_installed then install_dir else None),
         sizeOnDisk =
           (case truthy_group sizeMatch of Some g \<Rightarrow> Some (parseInt10 g) | None \<Rightarrow> None),
         isInstalled = is_installed,
         lastUpdated =
           (case truthy_group lastUpdatedMatch of
              Some g \<Rightarrow> Some (new_Date (times_1000 (parseInt10 g)))
            | None \<Rightarrow> None) \<rparr>
   }"

text \<open>
  \<open>findSteamAppInLibrariesSync\<close> (one text in both revisions). A manifest that exists
  and cannot be read throws inside the \<open>try\<close>; the \<open>catch\<close> goes on to the next folder.
\<close>

fun findSteamAppInLibrariesSync ::
  "world \<Rightarrow> string \<Rightarrow> string list \<Rightarrow> string \<Rightarrow> (error + SteamApp) io" where
  "findSteamAppInLibrariesSync w app_id [] steamPath =
     return (Inl (new_SteamAppNotFoundError app_id None))"
| "findSteamAppInLibrariesSync w app_id (libraryFolder # folders) steamPath = do {
     let appManifestPath = path_join w [libraryFolder, ''appmanifest_'' @ app_id @ ''.acf''];
     present \<leftarrow> existsSync w appManifestPath;
     if present then do {
       manifestContent \<leftarrow> readFileSync w appManifestPath;
       case manifestContent of
         None \<Rightarrow> findSteamAppInLibrariesSync w app_id folders steamPath
       | Some content \<Rightarrow> do {
           app \<leftarrow> parse_manifest w app_id libraryFolder content;
           return (Inr app)
         }
     } else findSteamAppInLibrariesSync w app_id folders steamPath
   }"

definition findSteamAppInLibraries ::
  "world \<Rightarrow> string \<Rightarrow> string list \<Rightarrow> string \<Rightarrow> (error + SteamApp) io" where
  "findSteamAppInLibraries w app_id libraryFolders steamPath =
     findSteamAppInLibrariesSync w app_id libraryFolders steamPath"

text \<open>
  The dedup key of the aggregator of the modules (steam-path.ts, lines 206-207):
  \<open>app.appId + '|' + normalize(app.installDir)\<close>, lower-cased when \<open>isWin\<close>.
\<close>

definition dedup_key :: "world \<Rightarrow> bool \<Rightarrow> SteamApp \<Rightarrow> string \<Rightarrow> string" where
  "dedup_key w isWin app install_dir =
     (let key = appId app @ ''|'' @ path_normalize w install_dir
      in if isWin then toLowerCase key else key)"

text \<open>
  The loop over the entries of one library folder, in the modules: the state is the
  array \<open>apps\<close> and the set \<open>seen\<close>. An app that is not found (the manifest named by the
  digits of the file name does not exist or cannot be read) throws inside the inner
  \<open>try\<close> and is skipped.
\<close>

fun scan_files ::
  "world \<Rightarrow> bool \<Rightarrow> string \<Rightarrow> string list \<Rightarrow> SteamApp list \<times> string set
     \<Rightarrow> (SteamApp list \<times> string set) io" where
  "scan_files w isWin libraryFolder [] (apps, seen) = return (apps, seen)"
| "scan_files w isWin libraryFolder (file # files) (apps, seen) =
     (if startsWith file ''appmanifest_'' \<and> endsWith file ''.acf'' then
        (case truthy_group (manifest_match file) of
           None \<Rightarrow> scan_files w isWin libraryFolder files (apps, seen)
         | Some app_id \<Rightarrow> do {
             found \<leftarrow> findSteamAppInLibrariesSync w app_id [libraryFolder] [];
             case found of
               Inl e \<Rightarrow> scan_files w isWin libraryFolder files (apps, seen)
             | Inr app \<Rightarrow>
                 (case (if isInstalled app then truthy_group (installDir app) else None) of
                    None \<Rightarrow> scan_files w isWin libraryFolder files (apps, seen)
                  | Some dir \<Rightarrow>
                      (let key = dedup_key w isWin app dir in
                       if key \<notin> seen
                       then scan_files w isWin libraryFolder files (apps @ [app], insert key seen)
                       else scan_files w isWin libraryFolder files (apps, seen)))
           })
      else scan_files w isWin libraryFolder files (apps, seen))"

fun scan_folders ::
  "world \<Rightarrow> bool \<Rightarrow> string list \<Rightarrow> SteamApp list \<times> string set
     \<Rightarrow> (SteamApp list \<times> string set) io" where
  "scan_folders w isWin [] st = return st"
| "scan_folders w isWin (libraryFolder # folders) st = do {
     files \<leftarrow> readdirSync w libraryFolder;
     case files of
       None \<Rightarrow> scan_folders w isWin folders st
     | Some entries \<Rightarrow> do {
         st' \<leftarrow> scan_files w isWin libraryFolder entries st;
         scan_folders w isWin folders st'
       }
   }"

text \<open>
  The same two loops in the single file (index.ts, lines 584-612): no key, no set; an
  installed app is pushed.
\<close>

fun scan_files_plain :: "world \<Rightarrow> string \<Rightarrow> string list \<Rightarrow> SteamApp list \<Rightarrow> SteamApp list io" where
  "scan_files_plain w libraryFolder [] apps = return apps"
| "scan_files_plain w libraryFolder (file # files) apps =
     (if startsWith file ''appmanifest_'' \<and> endsWith file ''.acf'' then
        (case truthy_group (manifest_match file) of
           None \<Rightarrow> scan_files_plain w libraryFolder files apps
         | Some app_id \<Rightarrow> do {
             found \<leftarrow> findSteamAppInLibrariesSync w app_id [libraryFolder] [];
             case found of
               Inl e \<Rightarrow> scan_files_plain w libraryFolder files apps
             | Inr app \<Rightarrow>
                 if isInstalled app
                 then scan_files_plain w libraryFolder files (apps @ [app])
                 else scan_files_plain w libraryFolder files apps
           })
      else scan_files_plain w libraryFolder files apps)"

fun scan_folders_plain :: "world \<Rightarrow> string list \<Rightarrow> SteamApp list \<Rightarrow> SteamApp list io" where
  "scan_folders_plain w [] apps = return apps"
| "scan_folders_plain w (libraryFolder # folders) apps = do {
     files \<leftarrow> readdirSync w libraryFolder;
     case files of
       None \<Rightarrow> scan_folders_plain w folders apps
     | Some entries \<Rightarrow> do {
         apps' \<leftarrow> scan_files_plain w libraryFolder entries apps;
         scan_folders_plain w folders apps'
       }
   }"

fun getInstalledSteamAppsFromLibrariesSync ::
  "revision \<Rightarrow> world \<Rightarrow> string list \<Rightarrow> SteamApp list io" where
  "getInstalledSteamAppsFromLibrariesSync Monolith w libraryFolders =
     scan_folders_plain w libraryFolders []"
| "getInstalledSteamAppsFromLibrariesSync Modular w libraryFolders = do {
     let isWin = (platform w = ''win32'');
     st \<leftarrow> scan_folders w isWin libraryFolders ([], {});
     return (fst st)
   }"

text \<open>\<open>getInstalledSteamAppsFromLibraries\<close>: a promise that resolves with the apps.\<close>

definition getInstalledSteamAppsFromLibraries ::
  "revision \<Rightarrow> world \<Rightarrow> string list \<Rightarrow> (error + SteamApp list) io" where
  "getInstalledSteamAppsFromLibraries v w libraryFolders = do {
     apps \<leftarrow> getInstalledSteamAppsFromLibrariesSync v w libraryFolders;
     return (Inr apps)
   }"

section \<open>Process detector and version detector (steam-libraries.ts, lines 63-132; steam-version.ts; the same text in index.ts)\<close>

text \<open>The \<open>switch\<close> on the platform: the command to run, \<open>None\<close> in the default branch.\<close>

definition process_query :: "string \<Rightarrow> string option" where
  \<open>process_query currentPlatform =
     (if currentPlatform = ''win32'' then Some ''tasklist /FI "IMAGENAME eq steam.exe" /FO CSV /NH''
      else if currentPlatform = ''darwin'' then Some ''pgrep -f "Steam.app"''
      else if currentPlatform = ''linux'' then Some ''pgrep -f steam''
      else None)\<close>

definition isSteamRunningSync :: "world \<Rightarrow> bool io" where
  "isSteamRunningSync w =
     (let currentPlatform = platform w in
      case process_query currentPlatform of
        None \<Rightarrow> return False
      | Some command \<Rightarrow> do {
          output \<leftarrow> execSync w command;
          case output of
            None \<Rightarrow> return False
          | Some out \<Rightarrow>
              if currentPlatform = ''win32'' then return (str_includes out ''steam.exe'')
              else return (length (trim out) > 0)
        })"

text \<open>\<open>isSteamRunning\<close>: the same body inside a promise that always resolves.\<close>

definition isSteamRunning :: "world \<Rightarrow> (error + bool) io" where
  "isSteamRunning w =
     (let currentPlatform = platform w in
      case process_query currentPlatform of
        None \<Rightarrow> return (Inr False)
      | Some command \<Rightarrow> do {
          output \<leftarrow> execSync w command;
          case output of
            None \<Rightarrow> return (Inr False)
          | Some out \<Rightarrow>
              if currentPlatform = ''win32'' then return (Inr (str_includes out ''steam.exe''))
              else return (Inr (length (trim out) > 0))
        })"

fun read_version_files :: "world \<Rightarrow> string list \<Rightarrow> string option io" where
  "read_version_files w [] = return None"
| "read_version_files w (versionPath # ps) = do {
     present \<leftarrow> existsSync w versionPath;
     if present then do {
       raw \<leftarrow> readFileSync w versionPath;
       case raw of
         None \<Rightarrow> read_version_files w ps
       | Some text \<Rightarrow>
           (let content = trim text in
            if content \<noteq> [] \<and> length content > 0 then return (Some content)
            else read_version_files w ps)
     } else read_version_files w ps
   }"

definition file_version_query :: "string \<Rightarrow> string" where
  \<open>file_version_query steamExePath =
     ''powershell -Command "(Get-Item '' @ [CHR 0x27] @ steamExePath @ [CHR 0x27]
       @ '').VersionInfo.FileVersion"''\<close>

definition getSteamVersionSync :: "world \<Rightarrow> string \<Rightarrow> string option io" where
  "getSteamVersionSync w steamPath = do {
     fromExe \<leftarrow>
       (if platform w = ''win32'' then do {
          let steamExePath = path_join w [steamPath, ''steam.exe''];
          present \<leftarrow> existsSync w steamExePath;
          if present then do {
            output \<leftarrow> execSync w (file_version_query steamExePath);
            case output of
              Some out \<Rightarrow> return (Some (trim out))
            | None \<Rightarrow> return None
          } else return None
        } else return None);
     case fromExe of
       Some version \<Rightarrow> return (Some version)
     | None \<Rightarrow>
         read_version_files w
           [ path_join w [steamPath, ''package'', ''steam_client_win32''],
             path_join w [steamPath, ''steam_client_win32''],
             path_join w [steamPath, ''version.txt''],
             path_join w [steamPath, ''package'', ''version.txt''] ]
   }"

text \<open>\<open>getSteamVersion\<close>: a promise that resolves with the version.\<close>

definition getSteamVersion :: "world \<Rightarrow> string \<Rightarrow> (error + string option) io" where
  "getSteamVersion w steamPath = do {
     version \<leftarrow> getSteamVersionSync w steamPath;
     return (Inr version)
   }"

section \<open>Public operations (unnamed/part_000; index.ts, lines 73-144 and 495-565)\<close>

record SteamLocation =
  location_path :: string
  location_isRunning :: bool
  location_platform :: string
  location_version :: "string option"
  location_libraryFolders :: "string list"

text \<open>
  The \<open>catch\<close> blocks of the public operations: an error of a class the operation
  documents is thrown again, any other is wrapped with its message. The two revisions
  differ in \<open>findSteamLocation\<close> and \<open>findSteamLocationSync\<close> only, which on win32
  normalize the root and the folders (the single file resolves them first).
\<close>

definition location_catch :: "world \<Rightarrow> error \<Rightarrow> error" where
  "location_catch w e =
     (case e of
        SteamNotFoundError m p \<Rightarrow> e
      | SteamAppNotFoundError m \<Rightarrow>
          SteamNotFoundError (''Failed to find Steam on '' @ platform w @ '': '' @ m) (Some (platform w))
      | JsError m \<Rightarrow>
          SteamNotFoundError (''Failed to find Steam on '' @ platform w @ '': '' @ m) (Some (platform w)))"

definition app_catch :: "string \<Rightarrow> error \<Rightarrow> error" where
  "app_catch app_id e =
     (case e of
        SteamNotFoundError m p \<Rightarrow> e
      | SteamAppNotFoundError m \<Rightarrow> e
      | JsError m \<Rightarrow> new_SteamAppNotFoundError app_id (Some (''Error finding Steam app: '' @ m)))"

definition apps_catch :: "error \<Rightarrow> error" where
  "apps_catch e =
     (case e of
        SteamNotFoundError m p \<Rightarrow> e
      | SteamAppNotFoundError m \<Rightarrow>
          SteamNotFoundError (''Error getting installed Steam apps: '' @ m) None
      | JsError m \<Rightarrow> SteamNotFoundError (''Error getting installed Steam apps: '' @ m) None)"

definition findSteamLocationSync :: "revision \<Rightarrow> world \<Rightarrow> (error + SteamLocation) io" where
  "findSteamLocationSync v w = do {
     let currentPlatform = platform w;
     resolved \<leftarrow> findSteamPathSync v w;
     case resolved of
       Inl e \<Rightarrow> return (Inl (location_catch w e))
     | Inr found \<Rightarrow> do {
         folders \<leftarrow> getLibraryFoldersSync w found;
         let steamPath = (if currentPlatform = ''win32'' then canonical v w found else found);
         let libraryFolders =
           (if currentPlatform = ''win32'' then map (canonical v w) folders else folders);
         isRunning \<leftarrow> isSteamRunningSync w;
         version \<leftarrow> getSteamVersionSync w steamPath;
         return (Inr \<lparr> location_path = steamPath, location_isRunning = isRunning,
                       location_platform = currentPlatform, location_version = version,
                       location_libraryFolders = libraryFolders \<rparr>)
       }
   }"

text \<open>
  \<open>findSteamLocation\<close>: each \<open>await\<close> of a promise that rejected throws its error into
  the \<open>catch\<close>; \<open>.catch(() => x)\<close> turns a rejection into \<open>x\<close>.
\<close>

definition findSteamLocation :: "revision \<Rightarrow> world \<Rightarrow> (error + SteamLocation) io" where
  "findSteamLocation v w = do {
     let currentPlatform = platform w;
     resolved \<leftarrow> findSteamPath v w;
     case resolved of
       Inl e \<Rightarrow> return (Inl (location_catch w e))
     | Inr found \<Rightarrow> do {
         settled \<leftarrow> getLibraryFolders w found;
         let folders = (case settled of Inr fs \<Rightarrow> fs | Inl e \<Rightarrow> []);
         let steamPath = (if currentPlatform = ''win32'' then canonical v w found else found);
         let libraryFolders =
           (if currentPlatform = ''win32'' then map (canonical v w) folders else folders);
         running \<leftarrow> isSteamRunning w;
         case running of
           Inl e \<Rightarrow> return (Inl (location_catch w e))
         | Inr isRunning \<Rightarrow> do {
             versioned \<leftarrow> getSteamVersion w steamPath;
             let version = (case versioned of Inr ver \<Rightarrow> ver | Inl e \<Rightarrow> None);
             return (Inr \<lparr> location_path = steamPath, location_isRunning = isRunning,
                           location_platform = currentPlatform, location_version = version,
                           location_libraryFolders = libraryFolders \<rparr>)
           }
       }
   }"

text \<open>
  \<open>steamPath || findSteamPathSync()\<close>: the caller's path when it is given and not the
  empty string, else the resolved root.
\<close>

definition findSteamAppSync ::
  "revision \<Rightarrow> world \<Rightarrow> string \<Rightarrow> string option \<Rightarrow> (error + SteamApp) io" where
  "findSteamAppSync v w app_id steamPath = do {
     actual \<leftarrow>
       (case steamPath of
          Some p \<Rightarrow> if p \<noteq> [] then return (Inr p) else findSteamPathSync v w
        | None \<Rightarrow> findSteamPathSync v w);
     case actual of
       Inl e \<Rightarrow> return (Inl (app_catch app_id e))
     | Inr actualSteamPath \<Rightarrow> do {
         libraryFolders \<leftarrow> getLibraryFoldersSync w actualSteamPath;
         located \<leftarrow> findSteamAppInLibrariesSync w app_id libraryFolders actualSteamPath;
         case located of
           Inl e \<Rightarrow> return (Inl (app_catch app_id e))
         | Inr app \<Rightarrow> return (Inr app)
       }
   }"

definition findSteamApp ::
  "revision \<Rightarrow> world \<Rightarrow> string \<Rightarrow> string option \<Rightarrow> (error + SteamApp) io" where
  "findSteamApp v w app_id steamPath = do {
     actual \<leftarrow>
       (case steamPath of
          Some p \<Rightarrow> if p \<noteq> [] then return (Inr p) else findSteamPath v w
        | None \<Rightarrow> findSteamPath v w);
     case actual of
       Inl e \<Rightarrow> return (Inl (app_catch app_id e))
     | Inr actualSteamPath \<Rightarrow> do {
         settled \<leftarrow> getLibraryFolders w actualSteamPath;
         case settled of
           Inl e \<Rightarrow> return (Inl (app_catch app_id e))
         | Inr libraryFolders \<Rightarrow> do {
             located \<leftarrow> findSteamAppInLibraries w app_id libraryFolders actualSteamPath;
             case located of
               Inl e \<Rightarrow> return (Inl (app_catch app_id e))
             | Inr app \<Rightarrow> return (Inr app)
           }
       }
   }"

definition getInstalledSteamAppsSync ::
  "revision \<Rightarrow> world \<Rightarrow> string option \<Rightarrow> (error + SteamApp list) io" where
  "getInstalledSteamAppsSync v w steamPath = do {
     actual \<leftarrow>
       (case steamPath of
          Some p \<Rightarrow> if p \<noteq> [] then return (Inr p) else findSteamPathSync v w
        | None \<Rightarrow> findSteamPathSync v w);
     case actual of
       Inl e \<Rightarrow> return (Inl (apps_catch e))
     | Inr actualSteamPath \<Rightarrow> do {
         libraryFolders \<leftarrow> getLibraryFoldersSync w actualSteamPath;
         apps \<leftarrow> getInstalledSteamAppsFromLibrariesSync v w libraryFolders;
         return (Inr apps)
       }
   }"

text \<open>
  \<open>getInstalledSteamApps\<close> returns the promise of \<open>getInstalledSteamAppsFromLibraries\<close>
  without awaiting it: the operation settles as that promise does.
\<close>

definition getInstalledSteamApps ::
  "revision \<Rightarrow> world \<Rightarrow> string option \<Rightarrow> (error + SteamApp list) io" where
  "getInstalledSteamApps v w steamPath = do {
     actual \<leftarrow>
       (case steamPath of
          Some p \<Rightarrow> if p \<noteq> [] then return (Inr p) else findSteamPath v w
        | None \<Rightarrow> findSteamPath v w);
     case actual of
       Inl e \<Rightarrow> return (Inl (apps_catch e))
     | Inr actualSteamPath \<Rightarrow> do {
         settled \<leftarrow> getLibraryFolders w actualSteamPath;
         case settled of
           Inl e \<Rightarrow> return (Inl (apps_catch e))
         | Inr libraryFolders \<Rightarrow> getInstalledSteamAppsFromLibraries v w libraryFolders
       }
   }"

section \<open>Concrete hosts\<close>

text \<open>
  Hosts on which the theorems below are instantiated. Their \<open>path\<close> functions are the
  simplest ones that will do: \<open>normalize\<close> changes nothing, \<open>join\<close> and \<open>resolve\<close> put
  a slash between their arguments.
\<close>

fun slash_join :: "string list \<Rightarrow> string" where
  "slash_join [] = ''.''"
| "slash_join [x] = x"
| "slash_join (x # y # ys) = x @ ''/'' @ slash_join (y # ys)"

text \<open>A bare host: no environment, no command succeeds, no path exists.\<close>

definition bare_host :: world where
  "bare_host =
     \<lparr> platform = ''linux'', homedir = ''/home/user'', env = (\<lambda>name. None),
       exec_output = (\<lambda>command. None), file_exists = (\<lambda>p. False),
       file_content = (\<lambda>p. None), dir_entries = (\<lambda>p. None),
       path_normalize = (\<lambda>p. p), path_resolve = slash_join, path_join = slash_join \<rparr>"

text \<open>An AIX machine on which every path exists and every command prints a path.\<close>

definition aix_host :: world where
  "aix_host = bare_host \<lparr> platform := ''aix'', file_exists := (\<lambda>p. True),
     exec_output := (\<lambda>command. Some ''/usr/bin/steam'') \<rparr>"

text \<open>
  A Linux host with three library folders. \<open>/A\<close> holds a manifest of app 440 that
  cannot be read, \<open>/B\<close> holds one that can, with its install directory on disk, and
  \<open>/C\<close> holds one whose install directory is missing and whose size and date are not
  numbers.
\<close>

definition tf2_manifest :: string where
  \<open>tf2_manifest =
     ''"name" "TF2"'' @ [CHR 0x0A] @ ''"installdir" "tf2"'' @ [CHR 0x0A]
     @ ''"SizeOnDisk" "150"'' @ [CHR 0x0A] @ ''"LastUpdated" "1640995200"''\<close>

definition odd_manifest :: string where
  \<open>odd_manifest =
     ''"installdir" "gone"'' @ [CHR 0x0A] @ ''"SizeOnDisk" "big"'' @ [CHR 0x0A]
     @ ''"LastUpdated" "never"''\<close>

definition library_host :: world where
  "library_host = bare_host
     \<lparr> file_exists := (\<lambda>p. p \<in> {''/A/appmanifest_440.acf'', ''/B/appmanifest_440.acf'',
                                ''/B/common/tf2'', ''/C/appmanifest_440.acf''}),
       file_content := (\<lambda>p. if p = ''/B/appmanifest_440.acf'' then Some tf2_manifest
                              else if p = ''/C/appmanifest_440.acf'' then Some odd_manifest
                              else None) \<rparr>"

text \<open>
  A Linux host whose Steam root \<open>/steam\<close> has a folders file with four \<open>"path"\<close> entries:
  the root itself, \<open>/games\<close> twice, and \<open>/gone\<close>, which holds no \<open>steamapps\<close>.
\<close>

definition folders_vdf :: string where
  \<open>folders_vdf =
     ''"path" "/steam"'' @ [CHR 0x0A] @ ''"path" "/games"'' @ [CHR 0x0A]
     @ ''"path" "/gone"'' @ [CHR 0x0A] @ ''"path" "/games"''\<close>

definition folders_host :: world where
  "folders_host = bare_host
     \<lparr> file_exists := (\<lambda>p. p \<in> {''/steam/steamapps'', ''/steam/steamapps/libraryfolders.vdf'',
                                ''/games/steamapps''}),
       file_content := (\<lambda>p. if p = ''/steam/steamapps/libraryfolders.vdf'' then Some folders_vdf
                              else None) \<rparr>"

text \<open>
  Two Windows hosts, with \<open>resolve\<close> putting a backslash between its arguments. On the
  first the registry names \<open>C:\Steam\<close>, which holds \<open>steam.exe\<close>. On the second the
  registry query fails and Steam is installed under \<open>%LOCALAPPDATA%\<close>; the
  \<open>%APPDATA%\<close> folder holds a copy as well.
\<close>

fun backslash_join :: "string list \<Rightarrow> string" where
  "backslash_join [] = ''.''"
| "backslash_join [x] = x"
| "backslash_join (x # y # ys) = x @ [bs] @ backslash_join (y # ys)"

definition registry_host :: world where
  "registry_host = bare_host
     \<lparr> platform := ''win32'',
       exec_output := (\<lambda>command. if command = registry_query
                                   then Some (''    SteamPath    REG_SZ    C:'' @ [bs] @ ''Steam'' @ [CHR 0x0D, CHR 0x0A])
                                   else None),
       file_exists := (\<lambda>p. p \<in> {''C:'' @ [bs] @ ''Steam'',
                                ''C:'' @ [bs] @ ''Steam'' @ [bs] @ ''steam.exe'',
                                ''C:'' @ [bs] @ ''Program Files'' @ [bs] @ ''Steam'',
                                ''C:'' @ [bs] @ ''Program Files'' @ [bs] @ ''Steam'' @ [bs] @ ''steam.exe''}),
       path_resolve := backslash_join, path_join := backslash_join \<rparr>"

definition appdata_host :: world where
  "appdata_host = bare_host
     \<lparr> platform := ''win32'',
       env := (\<lambda>name. if name = ''LOCALAPPDATA'' then Some ''D:'' 
                       else if name = ''APPDATA'' then Some ''E:'' else None),
       file_exists := (\<lambda>p. p \<in> {''C:'' @ [bs] @ ''Program Files'' @ [bs] @ ''Steam'',
                                ''D:'' @ [bs] @ ''Steam'',
                                ''D:'' @ [bs] @ ''Steam'' @ [bs] @ ''steam.exe'',
                                ''E:'' @ [bs] @ ''Steam'',
                                ''E:'' @ [bs] @ ''Steam'' @ [bs] @ ''steam.exe''}),
       path_resolve := backslash_join, path_join := backslash_join \<rparr>"

text \<open>
  A Linux host with Steam in \<open>/opt/valve/steam\<close>, on the search path: none of the
  conventional paths exists, and \<open>which steam\<close> prints the path.
\<close>

definition which_host :: world where
  "which_host = bare_host
     \<lparr> exec_output := (\<lambda>command. if command = ''which steam''
                                   then Some (''/opt/valve/steam'' @ [CHR 0x0A]) else None),
       file_exists := (\<lambda>p. p = ''/opt/valve/steam'') \<rparr>"

text \<open>
  A Windows host whose file system ignores case: the library folder
  \<open>C:/Steam/steamapps\<close> is reached under any spelling, and holds the manifest of app
  440 with its install directory.
\<close>

definition case_blind_host :: world where
  "case_blind_host = bare_host
     \<lparr> platform := ''win32'',
       file_exists := (\<lambda>p. toLowerCase p \<in> {''c:/steam/steamapps/appmanifest_440.acf'',
                                             ''c:/steam/steamapps/common/tf2''}),
       file_content := (\<lambda>p. if toLowerCase p = ''c:/steam/steamapps/appmanifest_440.acf''
                              then Some tf2_manifest else None),
       dir_entries := (\<lambda>p. if toLowerCase p = ''c:/steam/steamapps''
                             then Some [''appmanifest_440.acf'', ''libraryfolders.vdf'']
                             else None) \<rparr>"

text \<open>
  A machine of an unsupported platform with a Steam root at \<open>/steam\<close>, whose main
  library holds app 440.
\<close>

definition rooted_host :: world where
  "rooted_host = bare_host
     \<lparr> platform := ''aix'',
       file_exists := (\<lambda>p. p \<in> {''/steam/steamapps'', ''/steam/steamapps/appmanifest_440.acf'',
                                ''/steam/steamapps/common/tf2''}),
       file_content := (\<lambda>p. if p = ''/steam/steamapps/appmanifest_440.acf''
                              then Some tf2_manifest else None) \<rparr>"

text \<open>A Linux host with the packaged launcher \<open>/usr/bin/steam\<close>, which \<open>which\<close> finds as well.\<close>

definition packaged_host :: world where
  "packaged_host = bare_host
     \<lparr> exec_output := (\<lambda>command. if command = ''which steam''
                                   then Some (''/usr/bin/steam'' @ [CHR 0x0A]) else None),
       file_exists := (\<lambda>p. p = ''/usr/bin/steam'') \<rparr>"

text \<open>The same root with a folders file that has no \<open>"path"\<close> entry.\<close>

definition empty_folders_host :: world where
  \<open>empty_folders_host = folders_host
     \<lparr> file_content := (\<lambda>p. if p = ''/steam/steamapps/libraryfolders.vdf''
                              then Some ''"libraryfolders" { }'' else None) \<rparr>\<close>

section \<open>Vocabulary of the properties\<close>

text \<open>
  Every computation of the library only appends to the history: run from any history,
  it returns its \<open>outcome\<close> and appends its \<open>effects\<close>.
\<close>

definition logs :: "'a io \<Rightarrow> bool" where
  "logs m = (\<forall>t. run_state m t = (outcome m, t @ effects m))"

text \<open>
  The manifest of an app in a library folder, whether it exists and can be read, the
  events of looking at it, and the app parsed from its text.
\<close>

definition manifest_path :: "world \<Rightarrow> string \<Rightarrow> string \<Rightarrow> string" where
  "manifest_path w a lib = path_join w [lib, ''appmanifest_'' @ a @ ''.acf'']"

definition readable_manifest :: "world \<Rightarrow> string \<Rightarrow> string \<Rightarrow> bool" where
  "readable_manifest w a lib =
     (file_exists w (manifest_path w a lib) \<and> file_content w (manifest_path w a lib) \<noteq> None)"

definition manifest_probe :: "world \<Rightarrow> string \<Rightarrow> string \<Rightarrow> event list" where
  "manifest_probe w a lib =
     ExistsSync (manifest_path w a lib)
     # (if file_exists w (manifest_path w a lib) then [ReadFileSync (manifest_path w a lib)] else [])"

definition manifest_text :: "world \<Rightarrow> string \<Rightarrow> string \<Rightarrow> string" where
  "manifest_text w a lib = (case file_content w (manifest_path w a lib) of Some c \<Rightarrow> c | None \<Rightarrow> [])"

definition parsed :: "world \<Rightarrow> string \<Rightarrow> string \<Rightarrow> SteamApp io" where
  "parsed w a lib = parse_manifest w a lib (manifest_text w a lib)"

text \<open>
  The library folder list in the words of the specification: the main folder when it
  exists; the values of the \<open>"path"\<close> entries of the folders file in file order (none
  when the file does not exist or cannot be read), each turned into a folder path; and
  the rule that appends a path iff it exists and is not yet in the accumulated list.
\<close>

definition main_folder :: "world \<Rightarrow> string \<Rightarrow> string list" where
  "main_folder w root =
     (if file_exists w (path_join w [root, ''steamapps''])
      then [path_normalize w (path_join w [root, ''steamapps''])] else [])"

text \<open>
  The values of a field in a text: group 1 of each match of \<open>/"key"\s*"([^"]+)"/\<close>, the
  matches taken left to right without overlap (\<open>skip\<close> as in \<open>field_match_all_from\<close>).
\<close>

fun field_values_from :: "string \<Rightarrow> nat \<Rightarrow> string \<Rightarrow> string list" where
  "field_values_from key skip [] = []"
| "field_values_from key (Suc skip) (c # cs) = field_values_from key skip cs"
| "field_values_from key 0 (c # cs) =
     (case field_match_at key (c # cs) of
        Some (v, r) \<Rightarrow> v # field_values_from key (length (c # cs) - length r - 1) cs
      | None \<Rightarrow> field_values_from key 0 cs)"

definition field_values :: "string \<Rightarrow> string \<Rightarrow> string list" where
  "field_values key text = field_values_from key 0 text"

definition folders_file_entries :: "world \<Rightarrow> string \<Rightarrow> string list" where
  "folders_file_entries w root =
     (let vdf = path_join w [root, ''steamapps'', ''libraryfolders.vdf''] in
      if file_exists w vdf
      then (case file_content w vdf of Some text \<Rightarrow> field_values ''path'' text | None \<Rightarrow> [])
      else [])"

definition declared_folder :: "world \<Rightarrow> string \<Rightarrow> string" where
  "declared_folder w g = path_normalize w (path_join w [replace_double_backslash g, ''steamapps''])"

fun append_new :: "(string \<Rightarrow> bool) \<Rightarrow> string list \<Rightarrow> string list \<Rightarrow> string list" where
  "append_new on_disk acc [] = acc"
| "append_new on_disk acc (p # ps) =
     append_new on_disk (if on_disk p \<and> p \<notin> set acc then acc @ [p] else acc) ps"

text \<open>A list without its repetitions: each element where it first occurs.\<close>

fun first_occurrences :: "'a list \<Rightarrow> 'a list" where
  "first_occurrences [] = []"
| "first_occurrences (x # xs) = x # removeAll x (first_occurrences xs)"

text \<open>
  Windows root resolution: a path is verified when it exists and contains \<open>steam.exe\<close>;
  verifying it probes the path and, when it exists, the executable. The registry path
  is the canonical form of the value the registry query printed; the candidates are the
  canonical forms of the conventional paths.
\<close>

definition verified :: "world \<Rightarrow> string \<Rightarrow> bool" where
  "verified w p = (file_exists w p \<and> file_exists w (path_resolve w [p, ''steam.exe'']))"

definition probe :: "world \<Rightarrow> string \<Rightarrow> event list" where
  "probe w p =
     ExistsSync p
     # (if file_exists w p then [ExistsSync (path_resolve w [p, ''steam.exe''])] else [])"

definition registry_path :: "revision \<Rightarrow> world \<Rightarrow> string option" where
  "registry_path v w =
     (case exec_output w registry_query of
        None \<Rightarrow> None
      | Some out \<Rightarrow> map_option (\<lambda>g. canonical v w (unescape v (trim g))) (reg_match out))"

definition windows_candidates :: "revision \<Rightarrow> world \<Rightarrow> string list" where
  "windows_candidates v w = map (canonical v w) (commonPaths w)"

text \<open>Linux root resolution: the path \<open>which steam\<close> reports, when it exists on disk.\<close>

definition which_reports :: "world \<Rightarrow> string option" where
  "which_reports w =
     (case exec_output w ''which steam'' of
        None \<Rightarrow> None
      | Some out \<Rightarrow> if trim out \<noteq> [] \<and> file_exists w (trim out) then Some (trim out) else None)"

definition which_events :: "world \<Rightarrow> event list" where
  "which_events w =
     ExecSync ''which steam''
     # (case exec_output w ''which steam'' of
          None \<Rightarrow> []
        | Some out \<Rightarrow> if trim out \<noteq> [] then [ExistsSync (trim out)] else [])"

text \<open>
  The dedup key of an entry of the inventory, as the aggregator of the modules computes
  it on this host; \<open>None\<close> for an entry without an install directory.
\<close>

definition entry_key :: "world \<Rightarrow> SteamApp \<Rightarrow> string option" where
  "entry_key w app = map_option (dedup_key w (platform w = ''win32'') app) (installDir app)"

text \<open>
  The invariant of the two loops of that aggregator: the keys of the apps collected so
  far are pairwise different and all in \<open>seen\<close>, and each app has an install directory.
\<close>

definition key_of :: "world \<Rightarrow> bool \<Rightarrow> SteamApp \<Rightarrow> string" where
  "key_of w isWin app = (case installDir app of Some d \<Rightarrow> dedup_key w isWin app d | None \<Rightarrow> [])"

definition keyed :: "world \<Rightarrow> bool \<Rightarrow> SteamApp list \<times> string set \<Rightarrow> bool" where
  "keyed w isWin st =
     (distinct (map (key_of w isWin) (fst st)) \<and> set (map (key_of w isWin) (fst st)) \<subseteq> snd st
      \<and> (\<forall>app \<in> set (fst st). installDir app \<noteq> None))"

section \<open>Reasoning about computations\<close>

lemma logsI: "(\<And>t. run_state m t = (a, t @ es)) \<Longrightarrow> logs m"
  by (simp add: logs_def outcome_def effects_def)

lemma logs_run: "logs m \<Longrightarrow> run_state m t = (outcome m, t @ effects m)"
  by (simp add: logs_def)

lemma logs_return [simp]: "logs (return x)"
  by (rule logsI [where es = "[]"]) simp

lemma outcome_return [simp]: "outcome (return x) = x"
  by (simp add: outcome_def)

lemma effects_return [simp]: "effects (return x) = []"
  by (simp add: effects_def)

lemma logs_bind [simp]: "logs m \<Longrightarrow> (\<And>x. logs (f x)) \<Longrightarrow> logs (m \<bind> f)"
  by (rule logsI [where a = "outcome (f (outcome m))" and es = "effects m @ effects (f (outcome m))"])
     (simp add: logs_run)

lemma outcome_bind [simp]:
  "logs m \<Longrightarrow> logs (f (outcome m)) \<Longrightarrow> outcome (m \<bind> f) = outcome (f (outcome m))"
  by (simp add: outcome_def [of "m \<bind> f"] logs_run)

lemma effects_bind [simp]:
  "logs m \<Longrightarrow> logs (f (outcome m)) \<Longrightarrow> effects (m \<bind> f) = effects m @ effects (f (outcome m))"
  by (simp add: effects_def [of "m \<bind> f"] logs_run)

lemma logs_existsSync [simp]: "logs (existsSync w p)"
  by (rule logsI) (simp add: existsSync_def)

lemma outcome_existsSync [simp]: "outcome (existsSync w p) = file_exists w p"
  by (simp add: outcome_def existsSync_def)

lemma effects_existsSync [simp]: "effects (existsSync w p) = [ExistsSync p]"
  by (simp add: effects_def existsSync_def)

lemma logs_execSync [simp]: "logs (execSync w c)"
  by (rule logsI) (simp add: execSync_def)

lemma outcome_execSync [simp]: "outcome (execSync w c) = exec_output w c"
  by (simp add: outcome_def execSync_def)

lemma effects_execSync [simp]: "effects (execSync w c) = [ExecSync c]"
  by (simp add: effects_def execSync_def)

lemma logs_readFileSync [simp]: "logs (readFileSync w p)"
  by (rule logsI) (simp add: readFileSync_def)

lemma outcome_readFileSync [simp]: "outcome (readFileSync w p) = file_content w p"
  by (simp add: outcome_def readFileSync_def)

lemma effects_readFileSync [simp]: "effects (readFileSync w p) = [ReadFileSync p]"
  by (simp add: effects_def readFileSync_def)

lemma logs_readdirSync [simp]: "logs (readdirSync w p)"
  by (rule logsI) (simp add: readdirSync_def)

lemma outcome_readdirSync [simp]: "outcome (readdirSync w p) = dir_entries w p"
  by (simp add: outcome_def readdirSync_def)

lemma effects_readdirSync [simp]: "effects (readdirSync w p) = [ReaddirSync p]"
  by (simp add: effects_def readdirSync_def)

lemma logs_and_then [simp]: "logs a \<Longrightarrow> logs b \<Longrightarrow> logs (and_then a b)"
  by (simp add: and_then_def)

lemma outcome_and_then [simp]:
  "logs a \<Longrightarrow> logs b \<Longrightarrow> outcome (and_then a b) = (outcome a \<and> outcome b)"
  by (simp add: and_then_def)

lemma effects_and_then [simp]:
  "logs a \<Longrightarrow> logs b \<Longrightarrow> effects (and_then a b) = effects a @ (if outcome a then effects b else [])"
  by (simp add: and_then_def)

section \<open>Regular expressions: what they match\<close>

text \<open>
  \<open>/"key"\s*"([^"]+)"/\<close> matches at the start of a text exactly when the text is the
  quoted key, white space, a quote, a non-empty value without a quote, and a quote; the
  group is the value.
\<close>

lemma not_space_dq [simp]: "\<not> is_space dq"
  by (simp add: is_space_def dq_def)

lemma startsWith_append [simp]: "startsWith (p @ s) p"
  by (simp add: startsWith_def)

lemma startsWith_decompose: "startsWith s p \<Longrightarrow> s = p @ drop (length p) s"
  by (metis append_take_drop_id startsWith_def)

lemma dropWhile_eq_Cons_decompose:
  "dropWhile P xs = y # ys \<Longrightarrow> xs = takeWhile P xs @ y # ys \<and> \<not> P y"
  by (metis dropWhile_eq_Cons_conv takeWhile_dropWhile_id)

lemma field_match_at_SomeD:
  assumes "field_match_at key s = Some (v, r)"
  shows "\<exists>ws. s = dq # key @ [dq] @ ws @ dq # v @ dq # r
            \<and> (\<forall>c \<in> set ws. is_space c) \<and> v \<noteq> [] \<and> dq \<notin> set v"
proof -
  let ?k = "dq # key @ [dq]"
  from assms have start: "startsWith s ?k"
    by (auto simp: field_match_at_def Let_def split: if_splits)
  have "dropWhile is_space (drop (length ?k) s) \<noteq> []"
  proof
    assume "dropWhile is_space (drop (length ?k) s) = []"
    then have "field_match_at key s = None"
      by (simp add: field_match_at_def Let_def del: dropWhile_eq_Nil_conv)
    with assms show False by simp
  qed
  then obtain c r0 where
    rest: "dropWhile is_space (drop (length ?k) s) = c # r0"
    by (cases "dropWhile is_space (drop (length ?k) s)") auto
  from assms start rest have c: "c = dq"
    and v: "v = takeWhile (\<lambda>x. x \<noteq> dq) r0" "v \<noteq> []"
    and r: "dropWhile (\<lambda>x. x \<noteq> dq) r0 \<noteq> []" "r = tl (dropWhile (\<lambda>x. x \<noteq> dq) r0)"
    by (auto simp: field_match_at_def Let_def split: if_splits)
  from r(1) obtain y ys where tail: "dropWhile (\<lambda>x. x \<noteq> dq) r0 = y # ys"
    by (cases "dropWhile (\<lambda>x. x \<noteq> dq) r0") auto
  from dropWhile_eq_Cons_decompose [OF tail]
  have "r0 = takeWhile (\<lambda>x. x \<noteq> dq) r0 @ y # ys" and "y = dq"
    by blast+
  moreover from r(2) tail have "ys = r"
    by simp
  ultimately have r0: "r0 = v @ dq # r"
    using v(1) by metis
  define ws where "ws = takeWhile is_space (drop (length ?k) s)"
  from dropWhile_eq_Cons_decompose [OF rest] have "drop (length ?k) s = ws @ c # r0"
    by (simp add: ws_def)
  with startsWith_decompose [OF start] have "s = ?k @ ws @ dq # v @ dq # r"
    by (simp add: c r0)
  moreover have "\<forall>c \<in> set ws. is_space c"
    by (auto simp: ws_def dest: set_takeWhileD)
  moreover have "dq \<notin> set v"
    by (auto simp: v dest: set_takeWhileD)
  ultimately show ?thesis
    using v(2) by auto
qed

lemma field_match_at_SomeI:
  assumes "\<forall>c \<in> set ws. is_space c" and "v \<noteq> []" and "dq \<notin> set v"
  shows "field_match_at key (dq # key @ [dq] @ ws @ dq # v @ dq # r) = Some (v, r)"
proof -
  have ws: "dropWhile is_space (ws @ dq # v @ dq # r) = dq # v @ dq # r"
    using assms(1) by (simp add: dropWhile_append3)
  have tw: "takeWhile (\<lambda>x. x \<noteq> dq) (v @ dq # r) = v"
    using assms(3) by (subst takeWhile_append2) auto
  have dw: "dropWhile (\<lambda>x. x \<noteq> dq) (v @ dq # r) = dq # r"
    using assms(3) by (subst dropWhile_append2) auto
  have "startsWith (dq # key @ [dq] @ ws @ dq # v @ dq # r) (dq # key @ [dq])"
    by (simp add: startsWith_def)
  then show ?thesis
    using assms(2) by (simp add: field_match_at_def Let_def ws tw dw)
qed

lemma field_match_at_iff:
  "field_match_at key s = Some (v, r)
     \<longleftrightarrow> (\<exists>ws. s = dq # key @ [dq] @ ws @ dq # v @ dq # r
            \<and> (\<forall>c \<in> set ws. is_space c) \<and> v \<noteq> [] \<and> dq \<notin> set v)"
  using field_match_at_SomeD field_match_at_SomeI by blast

text \<open>
  A match of the expression, matched again on its own text as \<open>getLibraryFoldersSync\<close> does,
  gives the same group.
\<close>

lemma rematch:
  assumes "field_match_at key s = Some (v, r)"
  shows "field_match key (take (length s - length r) s) = Some v"
proof -
  from field_match_at_SomeD [OF assms] obtain ws where
    s: "s = dq # key @ [dq] @ ws @ dq # v @ dq # r"
    and ok: "\<forall>c \<in> set ws. is_space c" "v \<noteq> []" "dq \<notin> set v"
    by blast
  define m where "m = dq # key @ [dq] @ ws @ dq # v @ [dq]"
  have "s = m @ r"
    by (simp add: s m_def)
  then have "take (length s - length r) s = m"
    by simp
  then have "take (length s - length r) s = dq # key @ [dq] @ ws @ dq # v @ dq # []"
    by (simp add: m_def)
  moreover have "field_match_at key (dq # key @ [dq] @ ws @ dq # v @ dq # []) = Some (v, [])"
    by (rule field_match_at_SomeI [OF ok])
  ultimately show ?thesis
    by simp
qed

lemma rematch_Cons:
  "field_match_at key (c # cs) = Some (v, r)
     \<Longrightarrow> field_match key (take (Suc (length cs) - length r) (c # cs)) = Some v"
  using rematch [of key "c # cs" v r] by simp

lemma match_all_values:
  "List.map_filter (field_match key) (field_match_all_from key skip s) = field_values_from key skip s"
  by (induction key skip s rule: field_match_all_from.induct)
     (simp_all add: Let_def rematch_Cons split: option.split)

section \<open>Path resolver: properties\<close>

lemma logs_probe_commonPaths [simp]: "logs (probe_commonPaths v w ps)"
  by (induction ps) (simp_all add: Let_def)

lemma logs_registry_lookup [simp]: "logs (registry_lookup v w)"
  by (simp add: registry_lookup_def Let_def split: option.split)

lemma logs_findSteamPathWindows [simp]: "logs (findSteamPathWindows v w)"
  by (simp add: findSteamPathWindows_def split: option.split)

lemma logs_probe_macos [simp]: "logs (probe_macos w ps)"
  by (induction ps) (simp_all add: Let_def)

lemma logs_findSteamPathMacOS [simp]: "logs (findSteamPathMacOS v w)"
  by (cases v) (simp_all add: Let_def split: option.split)

lemma logs_probe_first_existing [simp]: "logs (probe_first_existing w ps)"
  by (induction ps) (simp_all add: Let_def)

lemma logs_which_steam [simp]: "logs (which_steam w)"
  by (simp add: which_steam_def Let_def split: option.split)

lemma logs_probe_unseen [simp]: "logs (probe_unseen w seen ps)"
  by (induction ps) (simp_all add: Let_def)

lemma logs_findSteamPathLinux [simp]: "logs (findSteamPathLinux v w)"
  by (cases v) (simp_all add: Let_def split: option.split)

lemma logs_findSteamPathSync [simp]: "logs (findSteamPathSync v w)"
  by (simp add: findSteamPathSync_def)

lemma logs_findSteamPath [simp]: "logs (findSteamPath v w)"
  by (simp add: findSteamPath_def split: sum.split)

lemma dot_plus_nonempty: "dot_plus s = Some g \<Longrightarrow> g \<noteq> []"
  by (auto simp: dot_plus_def Let_def split: if_splits)

lemma spaces_dot_plus_nonempty: "spaces_dot_plus s = Some g \<Longrightarrow> g \<noteq> []"
  by (induction s) (auto split: if_splits option.splits dest: dot_plus_nonempty)

lemma reg_match_at_nonempty: "reg_match_at s = Some g \<Longrightarrow> g \<noteq> []"
  by (auto simp: reg_match_at_def Let_def split: if_splits option.splits list.splits
        dest: spaces_dot_plus_nonempty)

lemma reg_match_nonempty: "reg_match s = Some g \<Longrightarrow> g \<noteq> []"
  by (induction s) (auto split: option.splits dest: reg_match_at_nonempty)

lemma probe_commonPaths_outcome:
  "outcome (probe_commonPaths v w ps) = find (verified w) (map (canonical v w) ps)"
  by (induction ps) (simp_all add: Let_def verified_def)

lemma probe_commonPaths_effects:
  "effects (probe_commonPaths v w ps)
     = concat (map (probe w) (takeWhile (\<lambda>p. \<not> verified w p) (map (canonical v w) ps)))
       @ (case find (verified w) (map (canonical v w) ps) of Some p \<Rightarrow> probe w p | None \<Rightarrow> [])"
  by (induction ps) (auto simp: Let_def verified_def probe_def)

lemma registry_lookup_outcome:
  "outcome (registry_lookup v w)
     = (case registry_path v w of Some p \<Rightarrow> if verified w p then Some p else None | None \<Rightarrow> None)"
  by (auto simp: registry_lookup_def registry_path_def Let_def verified_def
        split: option.split dest: reg_match_nonempty)

lemma registry_lookup_effects:
  "effects (registry_lookup v w)
     = ExecSync registry_query # (case registry_path v w of Some p \<Rightarrow> probe w p | None \<Rightarrow> [])"
  by (auto simp: registry_lookup_def registry_path_def Let_def probe_def
        split: option.split dest: reg_match_nonempty)

lemma fallback_effects_nonempty:
  "cands \<noteq> [] \<Longrightarrow>
     concat (map (probe w) (takeWhile (\<lambda>p. \<not> verified w p) cands))
     @ (case find (verified w) cands of Some p \<Rightarrow> probe w p | None \<Rightarrow> []) \<noteq> []"
  by (cases cands) (auto simp: probe_def)

lemma windows_candidates_nonempty: "windows_candidates v w \<noteq> []"
  by (simp add: windows_candidates_def commonPaths_def)

lemma windows_verified_registry:
  assumes "registry_path v w = Some p" and "verified w p"
  shows "outcome (findSteamPathWindows v w) = Inr p"
    and "effects (findSteamPathWindows v w) = ExecSync registry_query # probe w p"
  using assms
  by (simp_all add: findSteamPathWindows_def registry_lookup_outcome registry_lookup_effects)

lemma windows_fallback:
  assumes "\<not> (\<exists>p. registry_path v w = Some p \<and> verified w p)"
  shows "outcome (findSteamPathWindows v w)
           = (case find (verified w) (windows_candidates v w) of
                Some p \<Rightarrow> Inr p
              | None \<Rightarrow> Inl (SteamNotFoundError ''Could not locate Steam installation on Windows'' None))"
    and "effects (findSteamPathWindows v w)
           = ExecSync registry_query
             # (case registry_path v w of Some p \<Rightarrow> probe w p | None \<Rightarrow> [])
             @ concat (map (probe w) (takeWhile (\<lambda>p. \<not> verified w p) (windows_candidates v w)))
             @ (case find (verified w) (windows_candidates v w) of Some p \<Rightarrow> probe w p | None \<Rightarrow> [])"
proof -
  from assms have none: "outcome (registry_lookup v w) = None"
    by (auto simp: registry_lookup_outcome split: option.split)
  show "outcome (findSteamPathWindows v w)
           = (case find (verified w) (windows_candidates v w) of
                Some p \<Rightarrow> Inr p
              | None \<Rightarrow> Inl (SteamNotFoundError ''Could not locate Steam installation on Windows'' None))"
    by (simp add: findSteamPathWindows_def none probe_commonPaths_outcome windows_candidates_def
          split: option.split)
  show "effects (findSteamPathWindows v w)
           = ExecSync registry_query
             # (case registry_path v w of Some p \<Rightarrow> probe w p | None \<Rightarrow> [])
             @ concat (map (probe w) (takeWhile (\<lambda>p. \<not> verified w p) (windows_candidates v w)))
             @ (case find (verified w) (windows_candidates v w) of Some p \<Rightarrow> probe w p | None \<Rightarrow> [])"
    by (simp add: findSteamPathWindows_def none registry_lookup_effects probe_commonPaths_outcome
          probe_commonPaths_effects windows_candidates_def split: option.split)
qed

lemma probe_first_existing_outcome:
  "outcome (probe_first_existing w ps) = find (file_exists w) ps"
  by (induction ps) simp_all

lemma probe_first_existing_effects:
  "effects (probe_first_existing w ps)
     = map ExistsSync (takeWhile (\<lambda>p. \<not> file_exists w p) ps)
       @ (case find (file_exists w) ps of Some p \<Rightarrow> [ExistsSync p] | None \<Rightarrow> [])"
  by (induction ps) simp_all

lemma probe_unseen_outcome:
  "outcome (probe_unseen w {} ps) = find (file_exists w) ps"
  by (induction ps) simp_all

lemma probe_unseen_effects:
  "effects (probe_unseen w {} ps)
     = map ExistsSync (takeWhile (\<lambda>p. \<not> file_exists w p) ps)
       @ (case find (file_exists w) ps of Some p \<Rightarrow> [ExistsSync p] | None \<Rightarrow> [])"
  by (induction ps) simp_all

lemma which_steam_outcome: "outcome (which_steam w) = which_reports w"
  by (simp add: which_steam_def which_reports_def Let_def split: option.split)

lemma which_steam_effects: "effects (which_steam w) = which_events w"
  by (simp add: which_steam_def which_events_def Let_def split: option.split)

lemma find_Some_member: "find P xs = Some x \<Longrightarrow> x \<in> set xs \<and> P x"
  by (induction xs) (auto split: if_splits)

lemma find_none_exists:
  "(\<forall>p \<in> set ps. \<not> file_exists w p) \<Longrightarrow> find (file_exists w) ps = None"
  by (simp add: find_None_iff)

lemma takeWhile_none_exists:
  "(\<forall>p \<in> set ps. \<not> file_exists w p) \<Longrightarrow> takeWhile (\<lambda>p. \<not> file_exists w p) ps = ps"
  by (simp add: takeWhile_eq_all_conv)

lemma linux_single_file_outcome:
  "outcome (findSteamPathLinux Monolith w)
     = (case find (file_exists w) (linux_commonPaths w) of
          Some p \<Rightarrow> Inr p
        | None \<Rightarrow>
            (case which_reports w of
               Some p \<Rightarrow> Inr p
             | None \<Rightarrow> Inl (SteamNotFoundError ''Could not locate Steam installation on Linux'' None)))"
  by (simp add: probe_first_existing_outcome which_steam_outcome split: option.split)

lemma linux_single_file_effects:
  "effects (findSteamPathLinux Monolith w)
     = map ExistsSync (takeWhile (\<lambda>p. \<not> file_exists w p) (linux_commonPaths w))
       @ (case find (file_exists w) (linux_commonPaths w) of
            Some p \<Rightarrow> [ExistsSync p]
          | None \<Rightarrow> which_events w)"
  by (simp add: probe_first_existing_outcome probe_first_existing_effects which_steam_outcome
        which_steam_effects split: option.split)

lemma linux_module_outcome:
  "outcome (findSteamPathLinux Modular w)
     = (case find (file_exists w) (candidatePaths w) of
          Some p \<Rightarrow> Inr p
        | None \<Rightarrow> Inl (SteamNotFoundError ''Could not locate Steam installation on Linux'' None))"
  by (simp add: probe_unseen_outcome split: option.split)

lemma linux_module_effects:
  "effects (findSteamPathLinux Modular w)
     = map ExistsSync (takeWhile (\<lambda>p. \<not> file_exists w p) (candidatePaths w))
       @ (case find (file_exists w) (candidatePaths w) of Some p \<Rightarrow> [ExistsSync p] | None \<Rightarrow> [])"
  by (simp add: probe_unseen_outcome probe_unseen_effects split: option.split)

declare findSteamPathLinux.simps [simp del]

section \<open>The remaining computations only append to the history\<close>

lemma logs_collect_library_folders [simp]: "logs (collect_library_folders w ms acc)"
  by (induction ms arbitrary: acc) (simp_all add: Let_def split: option.split)

lemma logs_getLibraryFoldersSync [simp]: "logs (getLibraryFoldersSync w p)"
  by (simp add: getLibraryFoldersSync_def Let_def split: option.split)

lemma logs_getLibraryFolders [simp]: "logs (getLibraryFolders w p)"
  by (simp add: getLibraryFolders_def)

lemma logs_parse_manifest [simp]: "logs (parse_manifest w a lib c)"
  by (simp add: parse_manifest_def Let_def split: option.split)

lemma logs_findSteamAppInLibrariesSync [simp]: "logs (findSteamAppInLibrariesSync w a libs sp)"
  by (induction libs) (simp_all add: Let_def split: option.split)

lemma logs_findSteamAppInLibraries [simp]: "logs (findSteamAppInLibraries w a libs sp)"
  by (simp add: findSteamAppInLibraries_def)

lemma logs_scan_files [simp]: "logs (scan_files w isWin lib files st)"
  by (induction w isWin lib files st rule: scan_files.induct)
     (simp_all add: Let_def split: option.split sum.split)

lemma logs_scan_folders [simp]: "logs (scan_folders w isWin libs st)"
  by (induction libs arbitrary: st) (simp_all split: option.split)

lemma logs_scan_files_plain [simp]: "logs (scan_files_plain w lib files apps)"
  by (induction files arbitrary: apps) (simp_all add: Let_def split: option.split sum.split)

lemma logs_scan_folders_plain [simp]: "logs (scan_folders_plain w libs apps)"
  by (induction libs arbitrary: apps) (simp_all split: option.split)

lemma logs_getInstalledSteamAppsFromLibrariesSync [simp]:
  "logs (getInstalledSteamAppsFromLibrariesSync v w libs)"
  by (cases v) (simp_all add: Let_def)

lemma logs_getInstalledSteamAppsFromLibraries [simp]:
  "logs (getInstalledSteamAppsFromLibraries v w libs)"
  by (simp add: getInstalledSteamAppsFromLibraries_def)

lemma logs_isSteamRunningSync [simp]: "logs (isSteamRunningSync w)"
  by (simp add: isSteamRunningSync_def Let_def split: option.split)

lemma logs_isSteamRunning [simp]: "logs (isSteamRunning w)"
  by (simp add: isSteamRunning_def Let_def split: option.split)

lemma logs_read_version_files [simp]: "logs (read_version_files w ps)"
  by (induction ps) (simp_all add: Let_def split: option.split)

lemma logs_getSteamVersionSync [simp]: "logs (getSteamVersionSync w p)"
  by (simp add: getSteamVersionSync_def Let_def split: option.split)

lemma logs_getSteamVersion [simp]: "logs (getSteamVersion w p)"
  by (simp add: getSteamVersion_def)

section \<open>Manifest parser: properties\<close>

lemma field_match_at_nonempty: "field_match_at key s = Some (g, r) \<Longrightarrow> g \<noteq> []"
  by (auto simp: field_match_at_def Let_def split: if_splits list.splits)

lemma field_match_nonempty: "field_match key s = Some g \<Longrightarrow> g \<noteq> []"
  by (induction s) (auto split: option.splits dest: field_match_at_nonempty)

lemma truthy_group_field_match [simp]: "truthy_group (field_match key s) = field_match key s"
  by (cases "field_match key s") (auto simp: truthy_group_def dest: field_match_nonempty)

lemma parse_manifest_outcome:
  "outcome (parse_manifest w a lib c) =
     \<lparr> appId = a,
       name = field_match ''name'' c,
       installDir =
         (case field_match ''installdir'' c of
            Some g \<Rightarrow>
              if path_join w [lib, ''common'', g] \<noteq> [] \<and> file_exists w (path_join w [lib, ''common'', g])
              then Some (path_join w [lib, ''common'', g]) else None
          | None \<Rightarrow> None),
       sizeOnDisk = map_option parseInt10 (field_match ''SizeOnDisk'' c),
       isInstalled =
         (case field_match ''installdir'' c of
            Some g \<Rightarrow>
              path_join w [lib, ''common'', g] \<noteq> [] \<and> file_exists w (path_join w [lib, ''common'', g])
          | None \<Rightarrow> False),
       lastUpdated =
         map_option (\<lambda>g. new_Date (times_1000 (parseInt10 g))) (field_match ''LastUpdated'' c) \<rparr>"
  by (simp add: parse_manifest_def Let_def split: option.split)

lemma locate_outcome:
  "outcome (findSteamAppInLibrariesSync w a libs sp) =
     (case find (readable_manifest w a) libs of
        None \<Rightarrow> Inl (SteamAppNotFoundError (''Steam app with ID '' @ a @ '' not found''))
      | Some lib \<Rightarrow> Inr (outcome (parsed w a lib)))"
  by (induction libs)
     (auto simp: Let_def new_SteamAppNotFoundError_def readable_manifest_def manifest_path_def
        parsed_def manifest_text_def split: option.split)

lemma locate_effects:
  "effects (findSteamAppInLibrariesSync w a libs sp) =
     concat (map (manifest_probe w a) (takeWhile (\<lambda>lib. \<not> readable_manifest w a lib) libs))
     @ (case find (readable_manifest w a) libs of
          None \<Rightarrow> []
        | Some lib \<Rightarrow> manifest_probe w a lib @ effects (parsed w a lib))"
  by (induction libs)
     (auto simp: Let_def readable_manifest_def manifest_path_def manifest_probe_def
        parsed_def manifest_text_def split: option.split)

section \<open>Library folder discoverer: properties\<close>

lemma set_first_occurrences [simp]: "set (first_occurrences xs) = set xs"
  by (induction xs) auto

lemma distinct_first_occurrences [simp]: "distinct (first_occurrences xs)"
  by (induction xs) (auto simp: distinct_removeAll)

lemma filter_removeAll_rejected:
  "\<not> P x \<Longrightarrow> filter P (removeAll x xs) = filter P xs"
  by (induction xs) auto

lemma filter_removeAll_accepted:
  "filter (\<lambda>q. on_disk q \<and> q \<notin> set (acc @ [p])) xs
     = filter (\<lambda>q. on_disk q \<and> q \<notin> set acc) (removeAll p xs)"
  by (induction xs) auto

lemma append_new_closed_form:
  "append_new on_disk acc ps
     = acc @ filter (\<lambda>p. on_disk p \<and> p \<notin> set acc) (first_occurrences ps)"
proof (induction ps arbitrary: acc)
  case Nil
  then show ?case by simp
next
  case (Cons p ps)
  show ?case
  proof (cases "on_disk p \<and> p \<notin> set acc")
    case True
    then have "append_new on_disk acc (p # ps) = append_new on_disk (acc @ [p]) ps"
      by simp
    also have "\<dots> = (acc @ [p])
        @ filter (\<lambda>q. on_disk q \<and> q \<notin> set (acc @ [p])) (first_occurrences ps)"
      by (rule Cons.IH)
    also have "\<dots> = acc @ p
        # filter (\<lambda>q. on_disk q \<and> q \<notin> set acc) (removeAll p (first_occurrences ps))"
      by (simp only: filter_removeAll_accepted append_assoc append_Cons append_Nil)
    also have "\<dots> = acc
        @ filter (\<lambda>q. on_disk q \<and> q \<notin> set acc) (first_occurrences (p # ps))"
      using True by simp
    finally show ?thesis .
  next
    case False
    then have "append_new on_disk acc (p # ps) = append_new on_disk acc ps"
      by auto
    also have "\<dots> = acc @ filter (\<lambda>q. on_disk q \<and> q \<notin> set acc) (first_occurrences ps)"
      by (rule Cons.IH)
    also have "\<dots> = acc
        @ filter (\<lambda>q. on_disk q \<and> q \<notin> set acc) (removeAll p (first_occurrences ps))"
      using filter_removeAll_rejected [of "\<lambda>q. on_disk q \<and> q \<notin> set acc" p, OF False] by simp
    also have "\<dots> = acc
        @ filter (\<lambda>q. on_disk q \<and> q \<notin> set acc) (first_occurrences (p # ps))"
      using False by auto
    finally show ?thesis .
  qed
qed

lemma collect_outcome:
  "outcome (collect_library_folders w ms acc)
     = append_new (file_exists w) acc
         (map (declared_folder w) (List.map_filter (field_match ''path'') ms))"
  by (induction ms arbitrary: acc)
     (auto simp: Let_def declared_folder_def split: option.split dest: field_match_nonempty)

lemma getLibraryFoldersSync_outcome:
  "outcome (getLibraryFoldersSync w root)
     = append_new (file_exists w) (main_folder w root)
         (map (declared_folder w) (folders_file_entries w root))"
  by (simp add: getLibraryFoldersSync_def Let_def collect_outcome main_folder_def
        folders_file_entries_def field_values_def field_match_all_def match_all_values
        split: option.split)

lemma distinct_main_folder [simp]: "distinct (main_folder w root)"
  by (simp add: main_folder_def)

section \<open>Inventory aggregator: properties\<close>

lemma truthy_group_Some: "truthy_group m = Some g \<Longrightarrow> m = Some g"
  by (auto simp: truthy_group_def split: option.splits if_splits)

lemma keyed_push:
  assumes "keyed w isWin (apps, seen)" and "installDir app = Some d"
    and "dedup_key w isWin app d \<notin> seen"
  shows "keyed w isWin (apps @ [app], insert (dedup_key w isWin app d) seen)"
  using assms by (auto simp: keyed_def key_of_def)

lemma keyed_scan_files:
  "keyed w isWin (apps, seen) \<Longrightarrow> keyed w isWin (outcome (scan_files w isWin lib files (apps, seen)))"
proof (induction files arbitrary: apps seen)
  case Nil
  then show ?case by simp
next
  case (Cons entry files)
  show ?case
    using Cons.prems
    by (auto simp: Let_def split: option.split sum.split
          intro!: Cons.IH keyed_push dest: truthy_group_Some)
qed

lemma keyed_scan_folders:
  "keyed w isWin st \<Longrightarrow> keyed w isWin (outcome (scan_folders w isWin libs st))"
proof (induction libs arbitrary: st)
  case Nil
  then show ?case by simp
next
  case (Cons lib libs)
  then show ?case
    by (cases st) (auto split: option.split intro!: Cons.IH keyed_scan_files)
qed

lemma keyed_inventory:
  "keyed w (platform w = ''win32'')
     (outcome (getInstalledSteamAppsFromLibrariesSync Modular w libs), 
      snd (outcome (scan_folders w (platform w = ''win32'') libs ([], {}))))"
proof -
  have "keyed w (platform w = ''win32'') ([], {})"
    by (simp add: keyed_def)
  from keyed_scan_folders [OF this, of libs] show ?thesis
    by (simp add: Let_def)
qed

lemma distinct_map_Some: "distinct (map Some xs) = distinct xs"
  by (simp add: distinct_map)

lemma entry_key_key_of:
  "installDir app \<noteq> None \<Longrightarrow> entry_key w app = Some (key_of w (platform w = ''win32'') app)"
  by (auto simp: entry_key_def key_of_def)

lemma keyed_entry_keys:
  assumes "keyed w (platform w = ''win32'') (apps, seen)"
  shows "distinct (map (entry_key w) apps)" and "None \<notin> set (map (entry_key w) apps)"
proof -
  from assms have dirs: "\<forall>app \<in> set apps. installDir app \<noteq> None"
    and keys: "distinct (map (key_of w (platform w = ''win32'')) apps)"
    by (simp_all add: keyed_def)
  from dirs have eq: "map (entry_key w) apps = map Some (map (key_of w (platform w = ''win32'')) apps)"
    by (simp add: entry_key_key_of)
  from keys show "distinct (map (entry_key w) apps)"
    unfolding eq by (simp only: distinct_map_Some)
  show "None \<notin> set (map (entry_key w) apps)"
    unfolding eq by auto
qed

text \<open>The aggregator of index.ts only ever appends: it is a concatenation over the folders.\<close>

lemma scan_files_plain_prefix:
  "outcome (scan_files_plain w lib files (xs @ ys))
     = xs @ outcome (scan_files_plain w lib files ys)"
proof (induction files arbitrary: ys)
  case Nil
  then show ?case by simp
next
  case (Cons entry files)
  from Cons.IH [of "ys @ [app]" for app]
  have pushed: "outcome (scan_files_plain w lib files (xs @ ys @ [app]))
                  = xs @ outcome (scan_files_plain w lib files (ys @ [app]))" for app
    by simp
  show ?case
    by (simp add: Let_def Cons.IH pushed split: option.split sum.split)
qed

lemma scan_folders_plain_prefix:
  "outcome (scan_folders_plain w libs (xs @ ys))
     = xs @ outcome (scan_folders_plain w libs ys)"
proof (induction libs arbitrary: ys)
  case Nil
  then show ?case by simp
next
  case (Cons lib libs)
  show ?case
    by (simp add: scan_files_plain_prefix Cons.IH split: option.split)
qed

lemma scan_folders_plain_appends:
  "outcome (scan_folders_plain w libs apps) = apps @ outcome (scan_folders_plain w libs [])"
  using scan_folders_plain_prefix [of w libs apps "[]"] by simp

lemma scan_folders_plain_append:
  "outcome (scan_folders_plain w (libs @ libs') apps)
     = outcome (scan_folders_plain w libs' (outcome (scan_folders_plain w libs apps)))"
  by (induction libs arbitrary: apps) (auto split: option.split)

lemma single_file_inventory_append:
  "outcome (getInstalledSteamAppsFromLibrariesSync Monolith w (libs @ libs'))
     = outcome (getInstalledSteamAppsFromLibrariesSync Monolith w libs)
       @ outcome (getInstalledSteamAppsFromLibrariesSync Monolith w libs')"
  using scan_folders_plain_appends [of w libs' "outcome (scan_folders_plain w libs [])"]
  by (simp add: scan_folders_plain_append)

declare getInstalledSteamAppsFromLibrariesSync.simps [simp del]

section \<open>Public operations: properties\<close>

lemma settle_sum: "(case r of Inr x \<Rightarrow> return (Inr x) | Inl e \<Rightarrow> return (Inl e)) = return r"
  by (cases r) simp_all

lemma findSteamPath_eq: "findSteamPath v w = findSteamPathSync v w"
  by (simp add: findSteamPath_def settle_sum)

lemma isSteamRunning_eq: "isSteamRunning w = isSteamRunningSync w \<bind> (\<lambda>b. return (Inr b))"
  by (rule state_ext)
     (simp add: isSteamRunning_def isSteamRunningSync_def Let_def execSync_def split: option.split)

lemma findSteamLocation_eq: "findSteamLocation v w = findSteamLocationSync v w"
  by (simp add: findSteamLocation_def findSteamLocationSync_def findSteamPath_eq
        getLibraryFolders_def isSteamRunning_eq getSteamVersion_def Let_def
        cong: sum.case_cong option.case_cong if_cong)

lemma findSteamApp_eq: "findSteamApp v w a p = findSteamAppSync v w a p"
  by (simp add: findSteamApp_def findSteamAppSync_def findSteamPath_eq getLibraryFolders_def
        findSteamAppInLibraries_def cong: sum.case_cong option.case_cong if_cong)

lemma getInstalledSteamApps_eq: "getInstalledSteamApps v w p = getInstalledSteamAppsSync v w p"
  by (simp add: getInstalledSteamApps_def getInstalledSteamAppsSync_def findSteamPath_eq
        getLibraryFolders_def getInstalledSteamAppsFromLibraries_def
        cong: sum.case_cong option.case_cong if_cong)

lemma bind_settled:
  assumes "logs m" and "f (outcome m) = return (outcome m)"
  shows "m \<bind> f = m"
  by (rule state_ext) (simp add: logs_run [OF assms(1)] assms(2))

lemma app_catch_not_found [simp]: "app_catch a (SteamAppNotFoundError m) = SteamAppNotFoundError m"
  by (simp add: app_catch_def)

lemma app_catch_steam_not_found [simp]:
  "app_catch a (SteamNotFoundError m p) = SteamNotFoundError m p"
  by (simp add: app_catch_def)

lemma lookup_rethrows:
  "findSteamAppInLibrariesSync w a libs root
     \<bind> case_sum (\<lambda>e. return (Inl (app_catch a e))) (\<lambda>app. return (Inr app))
   = findSteamAppInLibrariesSync w a libs root"
  by (rule bind_settled) (simp_all add: locate_outcome split: option.split)

lemma findSteamAppSync_with_root:
  "root \<noteq> [] \<Longrightarrow> findSteamAppSync v w a (Some root)
     = getLibraryFoldersSync w root \<bind> (\<lambda>libs. findSteamAppInLibrariesSync w a libs root)"
  by (simp add: findSteamAppSync_def lookup_rethrows)

lemma findSteamAppSync_with_root_outcome:
  "root \<noteq> [] \<Longrightarrow> outcome (findSteamAppSync v w a (Some root))
     = outcome (findSteamAppInLibrariesSync w a (outcome (getLibraryFoldersSync w root)) root)"
  by (simp add: findSteamAppSync_with_root)

lemma findSteamAppSync_empty_root:
  "findSteamAppSync v w a (Some []) = findSteamAppSync v w a None"
  by (simp add: findSteamAppSync_def)

section \<open>The claims\<close>

subsection \<open>C1: root resolution on Windows\<close>

text \<open>
  C1. On Windows, root resolution (\<open>findSteamPathWindows\<close>, in both revisions) first
  runs the registry query (HKCU, then HKLM). When the query yields a path that exists
  and contains \<open>steam.exe\<close>, it returns that path at once: the only events are the query
  and the probe of that path; and with a registry path at hand it returns in that way
  only if the path is verified. On a registry miss or a failed verification it probes,
  in order, the canonical forms of \<open>C:\Program Files (x86)\Steam\<close>,
  \<open>C:\Program Files\Steam\<close>, \<open>%LOCALAPPDATA%\Steam\<close> and \<open>%APPDATA%\Steam\<close>, and
  returns the first that exists and contains \<open>steam.exe\<close>; when none does it throws
  \<open>SteamNotFoundError\<close>. The candidates before the first verified one are probed, that
  one is probed, and nothing after it.
\<close>

theorem windows_resolution_order:
  "(\<exists>rest. effects (findSteamPathWindows v w) = ExecSync registry_query # rest)
   \<and> (\<forall>p. registry_path v w = Some p \<and> verified w p \<longrightarrow>
          outcome (findSteamPathWindows v w) = Inr p
        \<and> effects (findSteamPathWindows v w) = ExecSync registry_query # probe w p)
   \<and> (\<forall>p. registry_path v w = Some p \<longrightarrow>
          outcome (findSteamPathWindows v w) = Inr p
        \<and> effects (findSteamPathWindows v w) = ExecSync registry_query # probe w p
        \<longrightarrow> verified w p)
   \<and> (\<not> (\<exists>p. registry_path v w = Some p \<and> verified w p) \<longrightarrow>
          outcome (findSteamPathWindows v w)
            = (case find (verified w) (windows_candidates v w) of
                 Some p \<Rightarrow> Inr p
               | None \<Rightarrow> Inl (SteamNotFoundError ''Could not locate Steam installation on Windows'' None))
        \<and> effects (findSteamPathWindows v w)
            = ExecSync registry_query
              # (case registry_path v w of Some p \<Rightarrow> probe w p | None \<Rightarrow> [])
              @ concat (map (probe w) (takeWhile (\<lambda>p. \<not> verified w p) (windows_candidates v w)))
              @ (case find (verified w) (windows_candidates v w) of Some p \<Rightarrow> probe w p | None \<Rightarrow> []))
   \<and> windows_candidates v w
       = map (canonical v w)
           [ ''C:'' @ [bs] @ ''Program Files (x86)'' @ [bs] @ ''Steam'',
             ''C:'' @ [bs] @ ''Program Files'' @ [bs] @ ''Steam'',
             path_resolve w [env_or_empty w ''LOCALAPPDATA'', ''Steam''],
             path_resolve w [env_or_empty w ''APPDATA'', ''Steam''] ]"
proof (intro conjI allI impI)
  show "\<exists>rest. effects (findSteamPathWindows v w) = ExecSync registry_query # rest"
    by (simp add: findSteamPathWindows_def registry_lookup_effects split: option.split)
next
  fix p assume "registry_path v w = Some p \<and> verified w p"
  then show "outcome (findSteamPathWindows v w) = Inr p"
    and "effects (findSteamPathWindows v w) = ExecSync registry_query # probe w p"
    by (simp_all add: windows_verified_registry)
next
  fix p
  assume reg: "registry_path v w = Some p"
    and at_once: "outcome (findSteamPathWindows v w) = Inr p
       \<and> effects (findSteamPathWindows v w) = ExecSync registry_query # probe w p"
  show "verified w p"
  proof (rule ccontr)
    assume "\<not> verified w p"
    with reg have "\<not> (\<exists>q. registry_path v w = Some q \<and> verified w q)"
      by simp
    from windows_fallback(2) [OF this] reg at_once
    have "concat (map (probe w) (takeWhile (\<lambda>p. \<not> verified w p) (windows_candidates v w)))
          @ (case find (verified w) (windows_candidates v w) of Some p \<Rightarrow> probe w p | None \<Rightarrow> []) = []"
      by simp
    with fallback_effects_nonempty [OF windows_candidates_nonempty] show False
      by blast
  qed
next
  assume miss: "\<not> (\<exists>p. registry_path v w = Some p \<and> verified w p)"
  show "outcome (findSteamPathWindows v w)
            = (case find (verified w) (windows_candidates v w) of
                 Some p \<Rightarrow> Inr p
               | None \<Rightarrow> Inl (SteamNotFoundError ''Could not locate Steam installation on Windows'' None))"
    by (rule windows_fallback(1) [OF miss])
  show "effects (findSteamPathWindows v w)
            = ExecSync registry_query
              # (case registry_path v w of Some p \<Rightarrow> probe w p | None \<Rightarrow> [])
              @ concat (map (probe w) (takeWhile (\<lambda>p. \<not> verified w p) (windows_candidates v w)))
              @ (case find (verified w) (windows_candidates v w) of Some p \<Rightarrow> probe w p | None \<Rightarrow> [])"
    by (rule windows_fallback(2) [OF miss])
next
  show "windows_candidates v w
       = map (canonical v w)
           [ ''C:'' @ [bs] @ ''Program Files (x86)'' @ [bs] @ ''Steam'',
             ''C:'' @ [bs] @ ''Program Files'' @ [bs] @ ''Steam'',
             path_resolve w [env_or_empty w ''LOCALAPPDATA'', ''Steam''],
             path_resolve w [env_or_empty w ''APPDATA'', ''Steam''] ]"
    by (simp add: windows_candidates_def commonPaths_def)
qed

theorem windows_resolution_witness:
  "outcome (findSteamPathWindows Modular registry_host) = Inr (''C:'' @ [bs] @ ''Steam'')
   \<and> effects (findSteamPathWindows Modular registry_host)
       = [ExecSync registry_query, ExistsSync (''C:'' @ [bs] @ ''Steam''),
          ExistsSync (''C:'' @ [bs] @ ''Steam'' @ [bs] @ ''steam.exe'')]
   \<and> outcome (findSteamPathWindows Monolith appdata_host) = Inr (''D:'' @ [bs] @ ''Steam'')
   \<and> effects (findSteamPathWindows Monolith appdata_host)
       = [ExecSync registry_query,
          ExistsSync (''C:'' @ [bs] @ ''Program Files (x86)'' @ [bs] @ ''Steam''),
          ExistsSync (''C:'' @ [bs] @ ''Program Files'' @ [bs] @ ''Steam''),
          ExistsSync (''C:'' @ [bs] @ ''Program Files'' @ [bs] @ ''Steam'' @ [bs] @ ''steam.exe''),
          ExistsSync (''D:'' @ [bs] @ ''Steam''),
          ExistsSync (''D:'' @ [bs] @ ''Steam'' @ [bs] @ ''steam.exe'')]"
proof -
  have reg: "registry_path Modular registry_host = Some (''C:'' @ [bs] @ ''Steam'')"
    by code_simp
  have ok: "verified registry_host (''C:'' @ [bs] @ ''Steam'')"
    by code_simp
  have shown: "probe registry_host (''C:'' @ [bs] @ ''Steam'')
                 = [ExistsSync (''C:'' @ [bs] @ ''Steam''),
                    ExistsSync (''C:'' @ [bs] @ ''Steam'' @ [bs] @ ''steam.exe'')]"
    by code_simp
  have miss: "registry_path Monolith appdata_host = None"
    by code_simp
  have first: "find (verified appdata_host) (windows_candidates Monolith appdata_host)
                 = Some (''D:'' @ [bs] @ ''Steam'')"
    by code_simp
  have before:
    "concat (map (probe appdata_host)
       (takeWhile (\<lambda>p. \<not> verified appdata_host p) (windows_candidates Monolith appdata_host)))
     = [ExistsSync (''C:'' @ [bs] @ ''Program Files (x86)'' @ [bs] @ ''Steam''),
        ExistsSync (''C:'' @ [bs] @ ''Program Files'' @ [bs] @ ''Steam''),
        ExistsSync (''C:'' @ [bs] @ ''Program Files'' @ [bs] @ ''Steam'' @ [bs] @ ''steam.exe'')]"
    by code_simp
  have last: "probe appdata_host (''D:'' @ [bs] @ ''Steam'')
                = [ExistsSync (''D:'' @ [bs] @ ''Steam''),
                   ExistsSync (''D:'' @ [bs] @ ''Steam'' @ [bs] @ ''steam.exe'')]"
    by code_simp
  note at_once = windows_resolution_order [of Modular registry_host]
  note fallback = windows_resolution_order [of Monolith appdata_host]
  have "outcome (findSteamPathWindows Modular registry_host) = Inr (''C:'' @ [bs] @ ''Steam'')
        \<and> effects (findSteamPathWindows Modular registry_host)
            = ExecSync registry_query # probe registry_host (''C:'' @ [bs] @ ''Steam'')"
    using at_once reg ok by blast
  moreover have "outcome (findSteamPathWindows Monolith appdata_host) = Inr (''D:'' @ [bs] @ ''Steam'')
        \<and> effects (findSteamPathWindows Monolith appdata_host)
            = ExecSync registry_query # [] @
              [ExistsSync (''C:'' @ [bs] @ ''Program Files (x86)'' @ [bs] @ ''Steam''),
               ExistsSync (''C:'' @ [bs] @ ''Program Files'' @ [bs] @ ''Steam''),
               ExistsSync (''C:'' @ [bs] @ ''Program Files'' @ [bs] @ ''Steam'' @ [bs] @ ''steam.exe'')]
              @ probe appdata_host (''D:'' @ [bs] @ ''Steam'')"
    using fallback unfolding miss first before by simp
  ultimately show ?thesis
    unfolding shown last by simp
qed

subsection \<open>C2: locating one app\<close>

text \<open>
  C2 as stated fails: a folder can contain the file \<open>appmanifest_440.acf\<close> and the
  lookup still throw, when the file exists and cannot be read (the \<open>catch\<close> of
  \<open>findSteamAppInLibrariesSync\<close> goes on to the next folder). On \<open>library_host\<close> the
  folder \<open>/A\<close> holds such a manifest.
\<close>

theorem app_lookup_fails_though_manifest_exists:
  "file_exists library_host (manifest_path library_host ''440'' ''/A'')
   \<and> outcome (findSteamAppInLibrariesSync library_host ''440'' [''/A''] [])
       = Inl (SteamAppNotFoundError ''Steam app with ID 440 not found'')"
  by code_simp

text \<open>
  C2, amended. For every app id and every list of library folders, locating a single
  app throws \<open>SteamAppNotFoundError\<close>, whose message names that app id, iff no folder of
  the list holds a manifest \<open>appmanifest_<appId>.acf\<close> that exists and can be read;
  otherwise the app returned is the one parsed from the manifest of the first such
  folder in list order. A folder before it is looked at (its manifest probed, and read
  when it exists) and skipped; no folder after it is examined: every event is a probe of
  a folder up to the first readable manifest, or belongs to the parsing of that one.
\<close>

theorem app_lookup_uses_first_readable_manifest:
  "((\<exists>e. outcome (findSteamAppInLibrariesSync w a libs sp) = Inl e)
      \<longleftrightarrow> (\<forall>lib \<in> set libs. \<not> readable_manifest w a lib))
   \<and> (find (readable_manifest w a) libs = None \<longrightarrow>
        outcome (findSteamAppInLibrariesSync w a libs sp)
          = Inl (SteamAppNotFoundError (''Steam app with ID '' @ a @ '' not found'')))
   \<and> (\<forall>lib. find (readable_manifest w a) libs = Some lib \<longrightarrow>
        outcome (findSteamAppInLibrariesSync w a libs sp) = Inr (outcome (parsed w a lib)))
   \<and> effects (findSteamAppInLibrariesSync w a libs sp)
       = concat (map (manifest_probe w a) (takeWhile (\<lambda>lib. \<not> readable_manifest w a lib) libs))
         @ (case find (readable_manifest w a) libs of
              None \<Rightarrow> []
            | Some lib \<Rightarrow> manifest_probe w a lib @ effects (parsed w a lib))"
proof -
  have "(\<exists>e. outcome (findSteamAppInLibrariesSync w a libs sp) = Inl e)
          \<longleftrightarrow> find (readable_manifest w a) libs = None"
    by (simp add: locate_outcome split: option.split)
  then have "(\<exists>e. outcome (findSteamAppInLibrariesSync w a libs sp) = Inl e)
          \<longleftrightarrow> (\<forall>lib \<in> set libs. \<not> readable_manifest w a lib)"
    by (auto simp: find_None_iff)
  then show ?thesis
    by (simp add: locate_outcome locate_effects)
qed

theorem app_lookup_witness:
  "outcome (findSteamAppInLibrariesSync library_host ''440'' [''/A'', ''/B'', ''/C''] [])
     = Inr \<lparr> appId = ''440'', name = Some ''TF2'', installDir = Some ''/B/common/tf2'',
             sizeOnDisk = Some (Num 150), isInstalled = True,
             lastUpdated = Some (Date_ms 1640995200000) \<rparr>
   \<and> effects (findSteamAppInLibrariesSync library_host ''440'' [''/A'', ''/B'', ''/C''] [])
     = [ExistsSync ''/A/appmanifest_440.acf'', ReadFileSync ''/A/appmanifest_440.acf'',
        ExistsSync ''/B/appmanifest_440.acf'', ReadFileSync ''/B/appmanifest_440.acf'',
        ExistsSync ''/B/common/tf2'']
   \<and> outcome (findSteamAppInLibrariesSync library_host ''440'' [''/D''] [])
     = Inl (SteamAppNotFoundError ''Steam app with ID 440 not found'')"
proof -
  have first: "find (readable_manifest library_host ''440'') [''/A'', ''/B'', ''/C''] = Some ''/B''"
    by code_simp
  have skipped: "takeWhile (\<lambda>lib. \<not> readable_manifest library_host ''440'' lib) [''/A'', ''/B'', ''/C'']
                   = [''/A'']"
    by code_simp
  have none: "find (readable_manifest library_host ''440'') [''/D''] = None"
    by code_simp
  have app: "outcome (parsed library_host ''440'' ''/B'')
               = \<lparr> appId = ''440'', name = Some ''TF2'', installDir = Some ''/B/common/tf2'',
                   sizeOnDisk = Some (Num 150), isInstalled = True,
                   lastUpdated = Some (Date_ms 1640995200000) \<rparr>"
    by code_simp
  have probes:
    "manifest_probe library_host ''440'' ''/A''
       = [ExistsSync ''/A/appmanifest_440.acf'', ReadFileSync ''/A/appmanifest_440.acf'']"
    "manifest_probe library_host ''440'' ''/B''
       = [ExistsSync ''/B/appmanifest_440.acf'', ReadFileSync ''/B/appmanifest_440.acf'']"
    "effects (parsed library_host ''440'' ''/B'') = [ExistsSync ''/B/common/tf2'']"
    by code_simp+
  note found = app_lookup_uses_first_readable_manifest
                 [of library_host "''440''" "[''/A'', ''/B'', ''/C'']" "[]"]
  note absent = app_lookup_uses_first_readable_manifest [of library_host "''440''" "[''/D'']" "[]"]
  have "outcome (findSteamAppInLibrariesSync library_host ''440'' [''/A'', ''/B'', ''/C''] [])
          = Inr (outcome (parsed library_host ''440'' ''/B''))"
    using found first by blast
  moreover have "effects (findSteamAppInLibrariesSync library_host ''440'' [''/A'', ''/B'', ''/C''] [])
          = concat (map (manifest_probe library_host ''440'') [''/A''])
            @ manifest_probe library_host ''440'' ''/B'' @ effects (parsed library_host ''440'' ''/B'')"
    using found unfolding first skipped by simp
  moreover have "outcome (findSteamAppInLibrariesSync library_host ''440'' [''/D''] [])
          = Inl (SteamAppNotFoundError (''Steam app with ID '' @ ''440'' @ '' not found''))"
    using absent none by blast
  ultimately show ?thesis
    by (simp add: app probes del: findSteamAppInLibrariesSync.simps)
qed

subsection \<open>C3: no two entries of the inventory with one dedup key\<close>

text \<open>
  C3 as stated fails for the aggregator of the single file (index.ts, lines 584-612),
  which computes no key and keeps no set. On \<open>case_blind_host\<close>, a Windows machine, the same library folder
  is listed under two spellings; the aggregator returns the app twice, and the two
  entries have the same dedup key.
\<close>

theorem single_file_inventory_repeats_key:
  "map (entry_key case_blind_host)
     (outcome (getInstalledSteamAppsFromLibrariesSync Monolith case_blind_host
                 [''C:/Steam/steamapps'', ''c:/steam/steamapps'']))
   = [Some ''440|c:/steam/steamapps/common/tf2'', Some ''440|c:/steam/steamapps/common/tf2'']"
  by code_simp

text \<open>
  C3, amended. For every list of library folders and every file system state, the
  sequence returned by the aggregator of the modules (steam-path.ts, lines 192-224)
  never contains two entries whose
  dedup key (the app id, \<open>|\<close>, and the normalized install directory, lower-cased only
  on win32) is equal, and every entry has an install directory and so a key. The
  aggregator of the single file does not deduplicate: its result for two lists
  of folders one after the other is the concatenation of its results for each, so an app
  reached through two folders of the list is returned twice.
\<close>

theorem inventory_keys_distinct:
  "distinct (map (entry_key w) (outcome (getInstalledSteamAppsFromLibrariesSync Modular w libs)))
   \<and> None \<notin> set (map (entry_key w) (outcome (getInstalledSteamAppsFromLibrariesSync Modular w libs)))
   \<and> outcome (getInstalledSteamAppsFromLibrariesSync Monolith w (libs @ libs'))
       = outcome (getInstalledSteamAppsFromLibrariesSync Monolith w libs)
         @ outcome (getInstalledSteamAppsFromLibrariesSync Monolith w libs')"
  using keyed_entry_keys [OF keyed_inventory, of w libs] single_file_inventory_append [of w libs libs']
  by blast

theorem inventory_keys_witness:
  "outcome (getInstalledSteamAppsFromLibrariesSync Modular case_blind_host
              [''C:/Steam/steamapps'', ''c:/steam/steamapps''])
     = [\<lparr> appId = ''440'', name = Some ''TF2'',
           installDir = Some ''C:/Steam/steamapps/common/tf2'', sizeOnDisk = Some (Num 150),
           isInstalled = True, lastUpdated = Some (Date_ms 1640995200000) \<rparr>]
   \<and> distinct (map (entry_key case_blind_host)
        (outcome (getInstalledSteamAppsFromLibrariesSync Modular case_blind_host
                    [''C:/Steam/steamapps'', ''c:/steam/steamapps''])))"
proof -
  have "outcome (getInstalledSteamAppsFromLibrariesSync Modular case_blind_host
              [''C:/Steam/steamapps'', ''c:/steam/steamapps''])
     = [\<lparr> appId = ''440'', name = Some ''TF2'',
           installDir = Some ''C:/Steam/steamapps/common/tf2'', sizeOnDisk = Some (Num 150),
           isInstalled = True, lastUpdated = Some (Date_ms 1640995200000) \<rparr>]"
    by code_simp
  then show ?thesis
    using inventory_keys_distinct
            [of case_blind_host "[''C:/Steam/steamapps'', ''c:/steam/steamapps'']"]
    by blast
qed

subsection \<open>C4: a declared install directory that is not on disk\<close>

text \<open>
  C4. When the manifest the app is built from (the first readable one) yields an
  \<open>installdir\<close> value and the path \<open><libraryFolder>/common/<value>\<close> does not exist on
  disk, the returned app has \<open>isInstalled = false\<close> and no \<open>installDir\<close>, although the
  value was present in the manifest text.
\<close>

theorem missing_install_directory_is_not_installed:
  assumes "find (readable_manifest w a) libs = Some lib"
    and "field_match ''installdir'' (manifest_text w a lib) = Some g"
    and "\<not> file_exists w (path_join w [lib, ''common'', g])"
  shows "\<exists>app. outcome (findSteamAppInLibrariesSync w a libs sp) = Inr app
           \<and> isInstalled app = False \<and> installDir app = None"
  using assms by (simp add: locate_outcome parsed_def parse_manifest_outcome)

theorem missing_install_directory_witness:
  "field_match ''installdir'' (manifest_text library_host ''440'' ''/C'') = Some ''gone''
   \<and> \<not> file_exists library_host (path_join library_host [''/C'', ''common'', ''gone''])
   \<and> (\<exists>app. outcome (findSteamAppInLibrariesSync library_host ''440'' [''/A'', ''/C''] []) = Inr app
          \<and> isInstalled app = False \<and> installDir app = None)"
proof -
  have first: "find (readable_manifest library_host ''440'') [''/A'', ''/C''] = Some ''/C''"
    by code_simp
  have declared: "field_match ''installdir'' (manifest_text library_host ''440'' ''/C'') = Some ''gone''"
    by code_simp
  have missing: "\<not> file_exists library_host (path_join library_host [''/C'', ''common'', ''gone''])"
    by code_simp
  show ?thesis
    using missing_install_directory_is_not_installed [OF first declared missing, of "[]"]
      declared missing
    by simp
qed

subsection \<open>C5: size and date that are not numbers\<close>

text \<open>
  C5 as stated fails: a manifest whose \<open>SizeOnDisk\<close> and \<open>LastUpdated\<close> values are not
  numbers gives an app whose \<open>sizeOnDisk\<close> is present and is \<open>NaN\<close>, and whose
  \<open>lastUpdated\<close> is present and is the Invalid Date: \<open>parseInt\<close> returns \<open>NaN\<close> and the
  code tests only whether the field matched. On \<open>library_host\<close> the manifest of \<open>/C\<close>
  reads \<open>"SizeOnDisk" "big"\<close> and \<open>"LastUpdated" "never"\<close>.
\<close>

theorem non_numeric_size_is_not_absent:
  "field_match ''SizeOnDisk'' odd_manifest = Some ''big''
   \<and> field_match ''LastUpdated'' odd_manifest = Some ''never''
   \<and> outcome (findSteamAppInLibrariesSync library_host ''440'' [''/C''] [])
       = Inr \<lparr> appId = ''440'', name = None, installDir = None, sizeOnDisk = Some NaN,
               isInstalled = False, lastUpdated = Some Invalid_Date \<rparr>"
  by code_simp

text \<open>
  C5, amended. For the manifest the app is built from: a \<open>SizeOnDisk\<close> value without a
  leading integer (\<open>parseInt\<close> gives \<open>NaN\<close>) does not make the parse fail, and the
  \<open>sizeOnDisk\<close> field is present and holds \<open>NaN\<close>; likewise a \<open>LastUpdated\<close> value without
  a leading integer gives a \<open>lastUpdated\<close> that is present and is the Invalid Date. Each
  of the two fields is absent exactly when the manifest has no such field.
\<close>

theorem non_numeric_size_and_date_are_NaN:
  assumes "find (readable_manifest w a) libs = Some lib"
  shows "\<exists>app. outcome (findSteamAppInLibrariesSync w a libs sp) = Inr app
     \<and> (\<forall>g. field_match ''SizeOnDisk'' (manifest_text w a lib) = Some g \<longrightarrow> parseInt10 g = NaN
            \<longrightarrow> sizeOnDisk app = Some NaN)
     \<and> (\<forall>g. field_match ''LastUpdated'' (manifest_text w a lib) = Some g \<longrightarrow> parseInt10 g = NaN
            \<longrightarrow> lastUpdated app = Some Invalid_Date)
     \<and> (sizeOnDisk app = None \<longleftrightarrow> field_match ''SizeOnDisk'' (manifest_text w a lib) = None)
     \<and> (lastUpdated app = None \<longleftrightarrow> field_match ''LastUpdated'' (manifest_text w a lib) = None)"
  using assms
  by (simp add: locate_outcome parsed_def parse_manifest_outcome times_1000_def new_Date_def)

theorem non_numeric_size_and_date_witness:
  "parseInt10 ''big'' = NaN \<and> parseInt10 ''never'' = NaN
   \<and> (\<exists>app. outcome (findSteamAppInLibrariesSync library_host ''440'' [''/A'', ''/C''] []) = Inr app
          \<and> sizeOnDisk app = Some NaN \<and> lastUpdated app = Some Invalid_Date)"
proof -
  have first: "find (readable_manifest library_host ''440'') [''/A'', ''/C''] = Some ''/C''"
    by code_simp
  have size: "field_match ''SizeOnDisk'' (manifest_text library_host ''440'' ''/C'') = Some ''big''"
    by code_simp
  have date: "field_match ''LastUpdated'' (manifest_text library_host ''440'' ''/C'') = Some ''never''"
    by code_simp
  have nan: "parseInt10 ''big'' = NaN" "parseInt10 ''never'' = NaN"
    by code_simp+
  show ?thesis
    using non_numeric_size_and_date_are_NaN [OF first, of "[]"] size date nan
    by auto
qed

subsection \<open>C6: the library folder list\<close>

text \<open>
  C6. For every root path and file system state, the library folder list is: the
  normalized \<open>root/steamapps\<close> first, iff that path exists; followed by, for each
  \<open>"path"\<close> entry of the folders file in file order (none when the file does not exist
  or cannot be read), the normalized path with \<open>steamapps\<close> appended, included iff it
  exists on disk and is not already in the accumulated list, under equality of strings.
  In closed form: the main folder, then the declared folders at their first occurrence
  that exist and are not the main folder. No other entry appears, and none appears
  twice. A folders file without a \<open>"path"\<close> entry leaves the main folder alone.
\<close>

theorem library_folder_list:
  "outcome (getLibraryFoldersSync w root)
     = append_new (file_exists w) (main_folder w root)
         (map (declared_folder w) (folders_file_entries w root))
   \<and> outcome (getLibraryFoldersSync w root)
     = main_folder w root
       @ filter (\<lambda>p. file_exists w p \<and> p \<notin> set (main_folder w root))
           (first_occurrences (map (declared_folder w) (folders_file_entries w root)))
   \<and> set (outcome (getLibraryFoldersSync w root))
     = set (main_folder w root)
       \<union> {p \<in> set (map (declared_folder w) (folders_file_entries w root)). file_exists w p}
   \<and> distinct (outcome (getLibraryFoldersSync w root))
   \<and> (folders_file_entries w root = [] \<longrightarrow>
        outcome (getLibraryFoldersSync w root) = main_folder w root)"
proof -
  let ?main = "main_folder w root"
  let ?declared = "map (declared_folder w) (folders_file_entries w root)"
  have fold: "outcome (getLibraryFoldersSync w root) = append_new (file_exists w) ?main ?declared"
    by (rule getLibraryFoldersSync_outcome)
  have closed: "outcome (getLibraryFoldersSync w root)
      = ?main @ filter (\<lambda>p. file_exists w p \<and> p \<notin> set ?main) (first_occurrences ?declared)"
    unfolding fold by (rule append_new_closed_form)
  have members: "set (outcome (getLibraryFoldersSync w root))
      = set ?main \<union> {p \<in> set ?declared. file_exists w p}"
    unfolding closed by auto
  have once: "distinct (outcome (getLibraryFoldersSync w root))"
    unfolding closed by auto
  have empty: "outcome (getLibraryFoldersSync w root) = ?main" if "folders_file_entries w root = []"
    unfolding fold using that by simp
  from fold closed members once empty show ?thesis
    by blast
qed

theorem library_folder_list_witness:
  "main_folder folders_host ''/steam'' = [''/steam/steamapps'']
   \<and> folders_file_entries folders_host ''/steam'' = [''/steam'', ''/games'', ''/gone'', ''/games'']
   \<and> outcome (getLibraryFoldersSync folders_host ''/steam'')
       = [''/steam/steamapps'', ''/games/steamapps'']
   \<and> folders_file_entries empty_folders_host ''/steam'' = []
   \<and> outcome (getLibraryFoldersSync empty_folders_host ''/steam'') = [''/steam/steamapps'']"
proof -
  have main: "main_folder folders_host ''/steam'' = [''/steam/steamapps'']"
    by code_simp
  have entries:
    "folders_file_entries folders_host ''/steam'' = [''/steam'', ''/games'', ''/gone'', ''/games'']"
    by code_simp
  have declared:
    "map (declared_folder folders_host) [''/steam'', ''/games'', ''/gone'', ''/games'']
       = [''/steam/steamapps'', ''/games/steamapps'', ''/gone/steamapps'', ''/games/steamapps'']"
    by code_simp
  have on_disk:
    "file_exists folders_host ''/steam/steamapps''" "file_exists folders_host ''/games/steamapps''"
    "\<not> file_exists folders_host ''/gone/steamapps''"
    by code_simp+
  have "outcome (getLibraryFoldersSync folders_host ''/steam'')
          = append_new (file_exists folders_host) [''/steam/steamapps'']
              [''/steam/steamapps'', ''/games/steamapps'', ''/gone/steamapps'', ''/games/steamapps'']"
    using library_folder_list [of folders_host "''/steam''"] unfolding main entries declared
    by blast
  then have listed: "outcome (getLibraryFoldersSync folders_host ''/steam'')
          = [''/steam/steamapps'', ''/games/steamapps'']"
    by (simp add: on_disk)
  have no_entries: "folders_file_entries empty_folders_host ''/steam'' = []"
    by code_simp
  have main': "main_folder empty_folders_host ''/steam'' = [''/steam/steamapps'']"
    by code_simp
  have "outcome (getLibraryFoldersSync empty_folders_host ''/steam'') = [''/steam/steamapps'']"
    using library_folder_list [of empty_folders_host "''/steam''"] no_entries
    unfolding main' by blast
  with main entries listed no_entries show ?thesis
    by blast
qed

subsection \<open>C7: the command fallback on Linux\<close>

text \<open>
  C7 as stated fails for the resolver of the modules (steam-path.ts, lines 90-115): it
  never runs \<open>which steam\<close>.
  On \<open>which_host\<close> none of its candidate paths exists and \<open>which steam\<close> would report
  \<open>/opt/valve/steam\<close>, which exists; the resolver probes its ten candidates and throws.
\<close>

theorem linux_module_has_no_command_fallback:
  "filter (file_exists which_host) (candidatePaths which_host) = []
   \<and> exec_output which_host ''which steam'' = Some (''/opt/valve/steam'' @ [CHR 0x0A])
   \<and> file_exists which_host ''/opt/valve/steam''
   \<and> outcome (findSteamPathLinux Modular which_host)
       = Inl (SteamNotFoundError ''Could not locate Steam installation on Linux'' None)
   \<and> effects (findSteamPathLinux Modular which_host) = map ExistsSync (candidatePaths which_host)"
  by code_simp

text \<open>
  C7, amended. On Linux, the resolver of the single file (index.ts, lines 331-360), when
  none of its
  seven conventional paths exists, runs \<open>which steam\<close> and returns the reported path,
  trimmed, if it is not empty and exists on disk; it throws \<open>SteamNotFoundError\<close> only
  when this fallback fails as well, and it runs the command only when no conventional
  path exists. The resolver of steam-path.ts has no command fallback: when none of its
  ten candidate paths exists it throws \<open>SteamNotFoundError\<close> after probing them, and it
  never runs a command.
\<close>

theorem linux_command_fallback:
  "((\<forall>p \<in> set (linux_commonPaths w). \<not> file_exists w p) \<longrightarrow>
       outcome (findSteamPathLinux Monolith w)
         = (case which_reports w of
              Some p \<Rightarrow> Inr p
            | None \<Rightarrow> Inl (SteamNotFoundError ''Could not locate Steam installation on Linux'' None))
     \<and> effects (findSteamPathLinux Monolith w)
         = map ExistsSync (linux_commonPaths w) @ which_events w)
   \<and> ((\<exists>e. outcome (findSteamPathLinux Monolith w) = Inl e)
        \<longleftrightarrow> (\<forall>p \<in> set (linux_commonPaths w). \<not> file_exists w p) \<and> which_reports w = None)
   \<and> ((\<exists>p \<in> set (linux_commonPaths w). file_exists w p) \<longrightarrow>
        ExecSync ''which steam'' \<notin> set (effects (findSteamPathLinux Monolith w)))
   \<and> ((\<forall>p \<in> set (candidatePaths w). \<not> file_exists w p) \<longrightarrow>
       outcome (findSteamPathLinux Modular w)
         = Inl (SteamNotFoundError ''Could not locate Steam installation on Linux'' None)
     \<and> effects (findSteamPathLinux Modular w) = map ExistsSync (candidatePaths w))
   \<and> (\<forall>command. ExecSync command \<notin> set (effects (findSteamPathLinux Modular w)))"
proof (intro conjI impI allI)
  assume none: "\<forall>p \<in> set (linux_commonPaths w). \<not> file_exists w p"
  show "outcome (findSteamPathLinux Monolith w)
         = (case which_reports w of
              Some p \<Rightarrow> Inr p
            | None \<Rightarrow> Inl (SteamNotFoundError ''Could not locate Steam installation on Linux'' None))"
    by (simp add: linux_single_file_outcome find_none_exists [OF none])
  show "effects (findSteamPathLinux Monolith w)
         = map ExistsSync (linux_commonPaths w) @ which_events w"
    by (simp add: linux_single_file_effects find_none_exists [OF none]
          takeWhile_none_exists [OF none])
next
  show "(\<exists>e. outcome (findSteamPathLinux Monolith w) = Inl e)
        \<longleftrightarrow> (\<forall>p \<in> set (linux_commonPaths w). \<not> file_exists w p) \<and> which_reports w = None"
    by (auto simp: linux_single_file_outcome find_None_iff split: option.splits
          dest: find_Some_member)
next
  assume "\<exists>p \<in> set (linux_commonPaths w). file_exists w p"
  then obtain q where "find (file_exists w) (linux_commonPaths w) = Some q"
    by (cases "find (file_exists w) (linux_commonPaths w)") (auto simp: find_None_iff)
  then show "ExecSync ''which steam'' \<notin> set (effects (findSteamPathLinux Monolith w))"
    by (auto simp: linux_single_file_effects)
next
  assume none: "\<forall>p \<in> set (candidatePaths w). \<not> file_exists w p"
  show "outcome (findSteamPathLinux Modular w)
         = Inl (SteamNotFoundError ''Could not locate Steam installation on Linux'' None)"
    by (simp add: linux_module_outcome find_none_exists [OF none])
  show "effects (findSteamPathLinux Modular w) = map ExistsSync (candidatePaths w)"
    by (simp add: linux_module_effects find_none_exists [OF none] takeWhile_none_exists [OF none])
next
  show "ExecSync command \<notin> set (effects (findSteamPathLinux Modular w))" for command
    by (auto simp: linux_module_effects split: option.splits dest: set_takeWhileD)
qed

theorem linux_command_fallback_witness:
  "filter (file_exists which_host) (linux_commonPaths which_host) = []
   \<and> outcome (findSteamPathLinux Monolith which_host) = Inr ''/opt/valve/steam''
   \<and> effects (findSteamPathLinux Monolith which_host)
       = map ExistsSync (linux_commonPaths which_host)
         @ [ExecSync ''which steam'', ExistsSync ''/opt/valve/steam'']
   \<and> outcome (findSteamPathLinux Modular which_host)
       = Inl (SteamNotFoundError ''Could not locate Steam installation on Linux'' None)
   \<and> file_exists packaged_host ''/usr/bin/steam''
   \<and> ExecSync ''which steam'' \<notin> set (effects (findSteamPathLinux Monolith packaged_host))"
proof -
  have absent: "filter (file_exists which_host) (linux_commonPaths which_host) = []"
    by code_simp
  then have none: "\<forall>p \<in> set (linux_commonPaths which_host). \<not> file_exists which_host p"
    by (simp add: filter_empty_conv)
  have "filter (file_exists which_host) (candidatePaths which_host) = []"
    by code_simp
  then have none': "\<forall>p \<in> set (candidatePaths which_host). \<not> file_exists which_host p"
    by (simp add: filter_empty_conv)
  have reported: "which_reports which_host = Some ''/opt/valve/steam''"
    by code_simp
  have asked: "which_events which_host = [ExecSync ''which steam'', ExistsSync ''/opt/valve/steam'']"
    by code_simp
  have packaged: "file_exists packaged_host ''/usr/bin/steam''"
    by code_simp
  have "''/usr/bin/steam'' \<in> set (linux_commonPaths packaged_host)"
    by (simp add: linux_commonPaths_def)
  with packaged have some: "\<exists>p \<in> set (linux_commonPaths packaged_host). file_exists packaged_host p"
    by blast
  have "ExecSync ''which steam'' \<notin> set (effects (findSteamPathLinux Monolith packaged_host))"
    using linux_command_fallback [of packaged_host] some by blast
  then show ?thesis
    using linux_command_fallback [of which_host] none none' absent packaged
    by (simp add: reported asked)
qed

subsection \<open>C8: a platform outside the three recognised tags\<close>

text \<open>
  C8. For every host platform tag other than \<open>win32\<close>, \<open>darwin\<close> and \<open>linux\<close>, root
  resolution (\<open>findSteamPathSync\<close>, in both revisions) throws \<open>SteamNotFoundError\<close>
  carrying that platform tag, and performs no file system probe, no registry query and
  no command invocation: its list of events is empty.
\<close>

theorem unsupported_platform_fails_without_probe:
  assumes "platform w \<noteq> ''win32''" and "platform w \<noteq> ''darwin''" and "platform w \<noteq> ''linux''"
  shows "outcome (findSteamPathSync v w)
           = Inl (SteamNotFoundError (''Unsupported platform: '' @ platform w) (Some (platform w)))
         \<and> effects (findSteamPathSync v w) = []"
  using assms by (simp add: findSteamPathSync_def)

theorem unsupported_platform_witness:
  "outcome (findSteamPathSync Modular aix_host)
     = Inl (SteamNotFoundError ''Unsupported platform: aix'' (Some ''aix''))
   \<and> effects (findSteamPathSync Modular aix_host) = []
   \<and> outcome (findSteamPathSync Monolith aix_host)
     = Inl (SteamNotFoundError ''Unsupported platform: aix'' (Some ''aix''))
   \<and> effects (findSteamPathSync Monolith aix_host) = []"
  using unsupported_platform_fails_without_probe [of aix_host Modular]
        unsupported_platform_fails_without_probe [of aix_host Monolith]
  by (simp add: aix_host_def bare_host_def)

subsection \<open>C9: the synchronous and the asynchronous operations agree\<close>

text \<open>
  C9. For every input and every fixed state of the host, each synchronous public
  operation and its asynchronous counterpart are the same computation: the promise
  settles as the synchronous call returns or throws (the same value, or the same error
  with the same message and platform), after the same events. This holds for
  \<open>findSteamLocation\<close>, \<open>findSteamApp\<close> and \<open>getInstalledSteamApps\<close> in both revisions,
  and for \<open>isSteamRunning\<close>, whose promise resolves with what \<open>isSteamRunningSync\<close>
  returns.
\<close>

theorem sync_and_async_agree:
  "findSteamLocation v w = findSteamLocationSync v w
   \<and> findSteamApp v w a p = findSteamAppSync v w a p
   \<and> getInstalledSteamApps v w p = getInstalledSteamAppsSync v w p
   \<and> isSteamRunning w = isSteamRunningSync w \<bind> (\<lambda>b. return (Inr b))
   \<and> outcome (isSteamRunning w) = Inr (outcome (isSteamRunningSync w))
   \<and> effects (isSteamRunning w) = effects (isSteamRunningSync w)"
  by (simp add: findSteamLocation_eq findSteamApp_eq getInstalledSteamApps_eq isSteamRunning_eq)

theorem sync_and_async_witness:
  "outcome (findSteamLocation Monolith which_host)
     = Inr \<lparr> location_path = ''/opt/valve/steam'', location_isRunning = False,
             location_platform = ''linux'', location_version = None,
             location_libraryFolders = [] \<rparr>
   \<and> outcome (findSteamApp Modular rooted_host ''440'' None)
     = Inl (SteamNotFoundError ''Unsupported platform: aix'' (Some ''aix''))
   \<and> outcome (getInstalledSteamApps Modular rooted_host (Some ''/steam'')) = Inr []"
proof -
  have "outcome (findSteamLocationSync Monolith which_host)
     = Inr \<lparr> location_path = ''/opt/valve/steam'', location_isRunning = False,
             location_platform = ''linux'', location_version = None,
             location_libraryFolders = [] \<rparr>"
    by code_simp
  moreover have "outcome (findSteamAppSync Modular rooted_host ''440'' None)
     = Inl (SteamNotFoundError ''Unsupported platform: aix'' (Some ''aix''))"
    by code_simp
  moreover have "outcome (getInstalledSteamAppsSync Modular rooted_host (Some ''/steam'')) = Inr []"
    by code_simp
  ultimately show ?thesis
    using sync_and_async_agree [of Monolith which_host]
          sync_and_async_agree [of Modular rooted_host "''440''" None]
          sync_and_async_agree [of Modular rooted_host _ "Some ''/steam''"]
    by simp
qed

subsection \<open>C10: a root supplied by the caller\<close>

text \<open>
  C10. For every app id and every non-empty root path supplied by the caller,
  \<open>findSteamAppSync\<close> and \<open>findSteamApp\<close> skip root resolution: the whole computation is
  the discovery of the library folders of that root followed by the lookup of the app
  in them. It never throws \<open>SteamNotFoundError\<close>; when it fails, the error is the
  \<open>SteamAppNotFoundError\<close> naming the requested app id. An empty string supplied as the
  root is treated as no root: the root is resolved, which can throw
  \<open>SteamNotFoundError\<close>, as it does on \<open>rooted_host\<close>, a machine of an unsupported platform.
\<close>

theorem supplied_root_skips_resolution:
  assumes "root \<noteq> []"
  shows "findSteamAppSync v w a (Some root)
           = getLibraryFoldersSync w root \<bind> (\<lambda>libs. findSteamAppInLibrariesSync w a libs root)
       \<and> findSteamApp v w a (Some root) = findSteamAppSync v w a (Some root)
       \<and> (\<forall>m t. outcome (findSteamAppSync v w a (Some root)) \<noteq> Inl (SteamNotFoundError m t))
       \<and> (\<forall>e. outcome (findSteamAppSync v w a (Some root)) = Inl e \<longrightarrow>
              e = SteamAppNotFoundError (''Steam app with ID '' @ a @ '' not found''))
       \<and> findSteamAppSync v w a (Some []) = findSteamAppSync v w a None
       \<and> findSteamApp v w a (Some []) = findSteamApp v w a None
       \<and> outcome (findSteamAppSync v rooted_host a (Some []))
           = Inl (SteamNotFoundError ''Unsupported platform: aix'' (Some ''aix''))"
proof (intro conjI allI impI)
  show "findSteamAppSync v w a (Some root)
           = getLibraryFoldersSync w root \<bind> (\<lambda>libs. findSteamAppInLibrariesSync w a libs root)"
    by (rule findSteamAppSync_with_root [OF assms])
  show "findSteamApp v w a (Some root) = findSteamAppSync v w a (Some root)"
    by (rule findSteamApp_eq)
  show "outcome (findSteamAppSync v w a (Some root)) \<noteq> Inl (SteamNotFoundError m t)" for m t
    by (simp add: findSteamAppSync_with_root_outcome [OF assms] locate_outcome split: option.split)
  show "e = SteamAppNotFoundError (''Steam app with ID '' @ a @ '' not found'')"
    if "outcome (findSteamAppSync v w a (Some root)) = Inl e" for e
    using that
    by (simp add: findSteamAppSync_with_root_outcome [OF assms] locate_outcome split: option.splits)
  show "findSteamAppSync v w a (Some []) = findSteamAppSync v w a None"
    by (rule findSteamAppSync_empty_root)
  show "findSteamApp v w a (Some []) = findSteamApp v w a None"
    by (simp add: findSteamApp_eq findSteamAppSync_empty_root)
  show "outcome (findSteamAppSync v rooted_host a (Some []))
           = Inl (SteamNotFoundError ''Unsupported platform: aix'' (Some ''aix''))"
    by (simp add: findSteamAppSync_def findSteamPathSync_def rooted_host_def bare_host_def)
qed

theorem supplied_root_witness:
  "outcome (findSteamAppSync Modular rooted_host ''440'' (Some ''/steam''))
     = Inr \<lparr> appId = ''440'', name = Some ''TF2'', installDir = Some ''/steam/steamapps/common/tf2'',
             sizeOnDisk = Some (Num 150), isInstalled = True,
             lastUpdated = Some (Date_ms 1640995200000) \<rparr>
   \<and> effects (findSteamAppSync Modular rooted_host ''440'' (Some ''/steam''))
     = [ExistsSync ''/steam/steamapps'', ExistsSync ''/steam/steamapps/libraryfolders.vdf'',
        ExistsSync ''/steam/steamapps/appmanifest_440.acf'',
        ReadFileSync ''/steam/steamapps/appmanifest_440.acf'',
        ExistsSync ''/steam/steamapps/common/tf2'']
   \<and> outcome (findSteamAppSync Modular rooted_host ''730'' (Some ''/steam''))
     = Inl (SteamAppNotFoundError ''Steam app with ID 730 not found'')
   \<and> outcome (findSteamAppSync Modular rooted_host ''440'' (Some []))
     = Inl (SteamNotFoundError ''Unsupported platform: aix'' (Some ''aix''))"
proof -
  have nonempty: "''/steam'' \<noteq> []"
    by simp
  note skipped = supplied_root_skips_resolution [OF nonempty, of Modular rooted_host]
  have run440:
    "outcome (getLibraryFoldersSync rooted_host ''/steam''
       \<bind> (\<lambda>libs. findSteamAppInLibrariesSync rooted_host ''440'' libs ''/steam''))
     = Inr \<lparr> appId = ''440'', name = Some ''TF2'', installDir = Some ''/steam/steamapps/common/tf2'',
             sizeOnDisk = Some (Num 150), isInstalled = True,
             lastUpdated = Some (Date_ms 1640995200000) \<rparr>"
    "effects (getLibraryFoldersSync rooted_host ''/steam''
       \<bind> (\<lambda>libs. findSteamAppInLibrariesSync rooted_host ''440'' libs ''/steam''))
     = [ExistsSync ''/steam/steamapps'', ExistsSync ''/steam/steamapps/libraryfolders.vdf'',
        ExistsSync ''/steam/steamapps/appmanifest_440.acf'',
        ReadFileSync ''/steam/steamapps/appmanifest_440.acf'',
        ExistsSync ''/steam/steamapps/common/tf2'']"
    by code_simp+
  have run730:
    "outcome (getLibraryFoldersSync rooted_host ''/steam''
       \<bind> (\<lambda>libs. findSteamAppInLibrariesSync rooted_host ''730'' libs ''/steam''))
     = Inl (SteamAppNotFoundError ''Steam app with ID 730 not found'')"
    by code_simp
  from skipped [of "''440''"]
  have found: "findSteamAppSync Modular rooted_host ''440'' (Some ''/steam'')
      = getLibraryFoldersSync rooted_host ''/steam''
        \<bind> (\<lambda>libs. findSteamAppInLibrariesSync rooted_host ''440'' libs ''/steam'')"
    and unresolved: "outcome (findSteamAppSync Modular rooted_host ''440'' (Some []))
      = Inl (SteamNotFoundError ''Unsupported platform: aix'' (Some ''aix''))"
    by blast+
  from skipped [of "''730''"]
  have missing: "findSteamAppSync Modular rooted_host ''730'' (Some ''/steam'')
      = getLibraryFoldersSync rooted_host ''/steam''
        \<bind> (\<lambda>libs. findSteamAppInLibrariesSync rooted_host ''730'' libs ''/steam'')"
    by blast
  show ?thesis
    unfolding found missing using run440 run730 unresolved by blast
qed

end
